theory Spec2Isabelle
  imports Complex_Main
begin

section \<open>Effects of the browser driver as values\<close>

text \<open>
  Every call into the browser driver (\<open>page.evaluate\<close>, \<open>page.query_selector\<close>,
  \<open>element.hover\<close>, \<open>element.click\<close>, ...) either returns a value or raises a Python
  \<open>Exception\<close>. A call is modelled by what it did: \<open>Inl msg\<close> when it raised an exception
  whose \<open>str(e)\<close> is \<open>msg\<close>, \<open>Inr v\<close> when it returned \<open>v\<close>.
\<close>

type_synonym 'a result = "string + 'a"

section \<open>Page snapshots (\<open>src/core/browser.py\<close>)\<close>

text \<open>
  One entry of \<open>visible_elements\<close> as the in-page script of \<open>_capture_page_state\<close>
  builds it. \<open>text\<close> is \<open>el.innerText?.trim().substring(0, 100)\<close>: \<open>None\<close> stands for
  JavaScript's \<open>undefined\<close> (an element without \<open>innerText\<close>), which reaches Python as
  \<open>None\<close>.
\<close>

record visible_element =
  ve_text :: "string option"
  ve_tag :: string
  ve_href :: "string option"
  ve_visible :: bool

record page_state =
  visible_elements :: "visible_element list"
  html_length :: int

text \<open>
  \<open>_capture_page_state\<close>: the script's result, or the fixed empty state when
  \<open>page.evaluate\<close> raised (the bare \<open>except\<close>).
\<close>

definition capture_page_state :: "page_state result \<Rightarrow> page_state" where
  "capture_page_state evaluated =
     (case evaluated of
        Inr state \<Rightarrow> state
      | Inl _ \<Rightarrow> \<lparr>visible_elements = [], html_length = 0\<rparr>)"

definition has_content_changed :: "page_state \<Rightarrow> page_state \<Rightarrow> bool" where
  "has_content_changed before_snapshot after_snapshot =
     (let before_count = length (visible_elements before_snapshot);
          after_count = length (visible_elements after_snapshot)
      in if after_count > before_count then True
         else if html_length after_snapshot \<noteq> html_length before_snapshot then True
         else False)"

text \<open>Python truthiness of \<open>elem['text']\<close>: \<open>None\<close> and the empty string are falsy.\<close>

fun truthy_text :: "string option \<Rightarrow> bool" where
  "truthy_text None = False"
| "truthy_text (Some s) = (s \<noteq> [])"

definition get_revealed_elements :: "page_state \<Rightarrow> page_state \<Rightarrow> visible_element list" where
  "get_revealed_elements before_snapshot after_snapshot =
     (let before_texts = set (map ve_text (visible_elements before_snapshot));
          after_elements = visible_elements after_snapshot;
          revealed = filter (\<lambda>elem. ve_text elem \<notin> before_texts \<and> truthy_text (ve_text elem))
                            after_elements
      in take 5 revealed)"

section \<open>JavaScript and Python string operations used by the code\<close>

text \<open>
  Strings are lists of characters; \<open>length\<close> counts characters. The operations below are
  the ASCII part of the JavaScript/Python library functions the source calls.
\<close>

definition is_space :: "char \<Rightarrow> bool" where
  "is_space c = (c \<in> set [CHR '' '', CHR 0x09, CHR 0x0A, CHR 0x0B, CHR 0x0C, CHR 0x0D])"

definition trim :: "string \<Rightarrow> string" where
  "trim s = rev (dropWhile is_space (rev (dropWhile is_space s)))"

definition lower_char :: "char \<Rightarrow> char" where
  "lower_char c =
     (case map_of (zip ''ABCDEFGHIJKLMNOPQRSTUVWXYZ'' ''abcdefghijklmnopqrstuvwxyz'') c of
        Some l \<Rightarrow> l
      | None \<Rightarrow> c)"

definition toLowerCase :: "string \<Rightarrow> string" where
  "toLowerCase s = map lower_char s"

definition startsWith :: "string \<Rightarrow> string \<Rightarrow> bool" where
  "startsWith s p = (take (length p) s = p)"

fun str_includes :: "string \<Rightarrow> string \<Rightarrow> bool" where
  "str_includes [] sub = (sub = [])"
| "str_includes (c # cs) sub = (startsWith (c # cs) sub \<or> str_includes cs sub)"

fun join :: "string \<Rightarrow> string list \<Rightarrow> string" where
  "join sep [] = []"
| "join sep [p] = p"
| "join sep (p # q # ps) = p @ sep @ join sep (q # ps)"

definition digit_char :: "nat \<Rightarrow> char" where
  "digit_char d = ''0123456789'' ! d"

fun string_of_nat :: "nat \<Rightarrow> string" where
  "string_of_nat n =
     (if n < 10 then [digit_char n]
      else string_of_nat (n div 10) @ [digit_char (n mod 10)])"

declare string_of_nat.simps [simp del]

text \<open>JavaScript \<open>a || b\<close> on possibly missing strings: the first truthy operand.\<close>

fun js_or :: "string option \<Rightarrow> string option \<Rightarrow> string option" where
  "js_or (Some a) b = (if a \<noteq> [] then Some a else b)"
| "js_or None b = b"

section \<open>The element locator \<open>getXPath\<close>\<close>

text \<open>
  A DOM node as \<open>getXPath\<close> reads it: its \<open>nodeType\<close>, \<open>nodeName\<close> and \<open>id\<close>, the
  chain reached through \<open>previousSibling\<close> (nearest sibling first, each seen by its
  \<open>nodeType\<close> and \<open>nodeName\<close>), and \<open>parentNode\<close> (\<open>None\<close> is \<open>null\<close>). The document
  node has \<open>nodeType\<close> 9 and ends the walk. The hover scan and the popup scan carry the
  same text of \<open>getXPath\<close>; one definition stands for both.
\<close>

datatype dom_node =
  DomNode (nodeType: nat) (nodeName: string) (node_id: string)
          (previousSiblings: "(nat \<times> string) list") (parentNode: "dom_node option")

definition ELEMENT_NODE :: nat where
  "ELEMENT_NODE = 1"

text \<open>The inner \<open>while (sibling)\<close> loop: \<open>index\<close> counts the preceding element siblings
  of the same \<open>nodeName\<close>.\<close>

fun count_same_siblings :: "(nat \<times> string) list \<Rightarrow> string \<Rightarrow> nat \<Rightarrow> nat" where
  "count_same_siblings [] name index = index"
| "count_same_siblings (sibling # rest) name index =
     count_same_siblings rest name
       (if fst sibling = ELEMENT_NODE \<and> snd sibling = name then index + 1 else index)"

definition path_step :: "string \<Rightarrow> nat \<Rightarrow> string" where
  "path_step name index =
     (let tagName = toLowerCase name;
          pathIndex = (if index > 0 then ''['' @ string_of_nat (index + 1) @ '']'' else [])
      in tagName @ pathIndex)"

text \<open>The outer \<open>while (current && current.nodeType === Node.ELEMENT_NODE)\<close> loop, with
  \<open>parts.unshift\<close> as consing in front.\<close>

fun xpath_parts :: "dom_node option \<Rightarrow> string list \<Rightarrow> string list" where
  "xpath_parts None parts = parts"
| "xpath_parts (Some (DomNode ty name ident siblings parent)) parts =
     (if ty = ELEMENT_NODE
      then xpath_parts parent (path_step name (count_same_siblings siblings name 0) # parts)
      else parts)"

definition getXPath :: "dom_node \<Rightarrow> string" where
  "getXPath element =
     (if node_id element \<noteq> []
      then ''//*[@id='' @ [CHR 0x22] @ node_id element @ [CHR 0x22] @ '']''
      else ''/'' @ join ''/'' (xpath_parts (Some element) []))"

text \<open>
  The same locator in the words of the specification: the chain of element ancestors of
  a node, root first and ending with the node itself; for each its tag name and its
  1-based ordinal among the siblings of the same tag.
\<close>

fun ancestor_chain :: "dom_node option \<Rightarrow> dom_node list" where
  "ancestor_chain None = []"
| "ancestor_chain (Some (DomNode ty name ident siblings parent)) =
     (if ty = ELEMENT_NODE
      then ancestor_chain parent @ [DomNode ty name ident siblings parent]
      else [])"

definition ordinal_among_same_tag :: "dom_node \<Rightarrow> nat" where
  "ordinal_among_same_tag n =
     Suc (length (filter (\<lambda>s. fst s = ELEMENT_NODE \<and> snd s = nodeName n) (previousSiblings n)))"

text \<open>How one step is written: the ordinal in brackets, left out when it is 1.\<close>

definition ordinal_suffix :: "nat \<Rightarrow> string" where
  "ordinal_suffix k = (if k > 1 then ''['' @ string_of_nat k @ '']'' else [])"

definition structural_path :: "dom_node \<Rightarrow> string" where
  "structural_path n =
     ''/'' @ join ''/'' (map (\<lambda>a. toLowerCase (nodeName a) @ ordinal_suffix (ordinal_among_same_tag a))
                             (ancestor_chain (Some n)))"

section \<open>The one-pass static scans\<close>

text \<open>
  An element as the in-page scripts read it. \<open>el_rect\<close> is the width and height of
  \<open>getBoundingClientRect()\<close>, \<open>el_style\<close> the result of \<open>getComputedStyle\<close>,
  \<open>el_attrs\<close> the attribute list in order, \<open>el_innerText\<close> and \<open>el_textContent\<close> are
  \<open>None\<close> where JavaScript gives \<open>undefined\<close> or \<open>null\<close>. \<open>el_hover_rule\<close> is the outcome
  of the style-sheet loop of \<open>hasHoverBehavior\<close> (some readable rule whose selector
  contains \<open>:hover\<close> matches the element once \<open>:hover\<close> is removed): selector matching is
  the browser's. \<open>el_parents\<close> is the \<open>parentElement\<close> chain, nearest first, each parent
  with its computed style and the computed styles of its children. \<open>el_has_close\<close> is
  whether \<open>el.querySelector('[aria-label*="close"], [class*="close"], button')\<close> finds
  something. The \<open>href\<close> and the rounded position that the scripts copy into a candidate
  are left out: nothing below reads them.
\<close>

record computed_style =
  display :: string
  visibility :: string
  opacity :: string
  cursor :: string
  position :: string

record dom_element =
  el_node :: dom_node
  el_rect :: "rat \<times> rat"
  el_style :: computed_style
  el_attrs :: "(string \<times> string) list"
  el_innerText :: "string option"
  el_textContent :: "string option"
  el_hover_rule :: bool
  el_parents :: "(computed_style \<times> computed_style list) list"
  el_has_close :: bool

definition getAttribute :: "dom_element \<Rightarrow> string \<Rightarrow> string option" where
  "getAttribute element name = map_of (el_attrs element) name"

definition hasAttribute :: "dom_element \<Rightarrow> string \<Rightarrow> bool" where
  "hasAttribute element name = (getAttribute element name \<noteq> None)"

text \<open>\<open>element.className\<close> and \<open>element.tagName\<close>.\<close>

definition className :: "dom_element \<Rightarrow> string" where
  "className element = (case getAttribute element ''class'' of Some c \<Rightarrow> c | None \<Rightarrow> [])"

definition tagName :: "dom_element \<Rightarrow> string" where
  "tagName element = nodeName (el_node element)"

definition or_null :: "string \<Rightarrow> string option" where
  "or_null s = (if s \<noteq> [] then Some s else None)"

subsection \<open>Hover candidates\<close>

definition isVisible_hover :: "dom_element \<Rightarrow> bool" where
  "isVisible_hover element =
     (let rect = el_rect element; style = el_style element
      in fst rect > 0 \<and> snd rect > 0 \<and> display style \<noteq> ''none''
         \<and> visibility style \<noteq> ''hidden'' \<and> opacity style \<noteq> ''0'')"

definition hidden_child :: "computed_style \<Rightarrow> bool" where
  "hidden_child childStyle =
     (display childStyle = ''none'' \<or> visibility childStyle = ''hidden''
      \<or> opacity childStyle = ''0'')"

text \<open>The \<open>while (parent && depth < 3)\<close> loop over the parent chain.\<close>

fun dropdown_parent :: "(computed_style \<times> computed_style list) list \<Rightarrow> nat \<Rightarrow> bool" where
  "dropdown_parent [] depth = False"
| "dropdown_parent ((parentStyle, children) # rest) depth =
     (if depth < 3 then
        (if (position parentStyle = ''relative'' \<or> position parentStyle = ''absolute'')
            \<and> list_ex hidden_child children
         then True
         else dropdown_parent rest (depth + 1))
      else False)"

definition hasHoverBehavior :: "dom_element \<Rightarrow> bool" where
  "hasHoverBehavior element =
     (if cursor (el_style element) = ''pointer'' then True
      else if hasAttribute element ''onmouseover'' \<or> hasAttribute element ''onmouseenter''
              \<or> hasAttribute element ''onmouseleave'' then True
      else if el_hover_rule element then True
      else dropdown_parent (el_parents element) 0)"

record hover_candidate =
  hc_tag :: string
  hc_text :: string
  hc_xpath :: string
  hc_class :: string
  hc_id :: "string option"
  hc_role :: "string option"
  hc_ariaLabel :: "string option"

definition hover_text :: "dom_element \<Rightarrow> string" where
  "hover_text element =
     (case js_or (map_option trim (el_innerText element))
             (js_or (map_option trim (el_textContent element))
               (js_or (getAttribute element ''aria-label'')
                 (js_or (getAttribute element ''title'') (Some [])))) of
        Some t \<Rightarrow> t
      | None \<Rightarrow> [])"

text \<open>
  The callback of \<open>allElements.forEach\<close>, on the pair of \<open>hoverableElements\<close> and
  \<open>seenElements\<close> (the \<open>Set\<close>, kept in insertion order). Each \<open>return\<close> leaves the pair as
  it is.
\<close>

definition hover_scan_element ::
  "hover_candidate list \<times> string list \<Rightarrow> dom_element \<Rightarrow> hover_candidate list \<times> string list" where
  "hover_scan_element st element =
     (let hoverableElements = fst st; seenElements = snd st in
      if \<not> isVisible_hover element then st
      else
        let tag = toLowerCase (tagName element); text = hover_text element in
        if text = [] \<and> tag \<noteq> ''img'' \<and> tag \<noteq> ''svg'' then st
        else if length text > 200 then st
        else if hasHoverBehavior element then
          (let xpath = getXPath (el_node element) in
           if xpath \<in> set seenElements then st
           else (hoverableElements @
                   [\<lparr>hc_tag = tag, hc_text = take 100 text, hc_xpath = xpath,
                     hc_class = className element,
                     hc_id = or_null (node_id (el_node element)),
                     hc_role = js_or (getAttribute element ''role'') None,
                     hc_ariaLabel = js_or (getAttribute element ''aria-label'') None\<rparr>],
                 seenElements @ [xpath]))
        else st)"

text \<open>The script: scan \<open>document.querySelectorAll('*')\<close>, return the first 50.\<close>

definition dynamic_hover_detection :: "dom_element list \<Rightarrow> hover_candidate list" where
  "dynamic_hover_detection allElements =
     take 50 (fst (foldl hover_scan_element ([], []) allElements))"

subsection \<open>Popup candidates\<close>

definition isVisible_popup :: "dom_element \<Rightarrow> bool" where
  "isVisible_popup element =
     (let rect = el_rect element; style = el_style element
      in fst rect > 0 \<and> snd rect > 0 \<and> display style \<noteq> ''none''
         \<and> visibility style \<noteq> ''hidden'')"

definition popupKeywords :: "string list" where
  "popupKeywords = [''modal'', ''popup'', ''dialog'', ''overlay'',
                    ''toggle'', ''open'', ''show'', ''trigger'']"

definition textKeywords :: "string list" where
  "textKeywords = [''learn more'', ''sign up'', ''login'', ''subscribe'',
                   ''register'', ''join'', ''get started'', ''more info'',
                   ''details'', ''view'', ''show'', ''open'']"

definition data_attributes :: "dom_element \<Rightarrow> (string \<times> string) list" where
  "data_attributes element = filter (\<lambda>a. startsWith (fst a) ''data-'') (el_attrs element)"

definition attr_truthy :: "string option \<Rightarrow> bool" where
  "attr_truthy v = (case v of Some s \<Rightarrow> s \<noteq> [] | None \<Rightarrow> False)"

definition mightTriggerPopup :: "dom_element \<Rightarrow> bool" where
  "mightTriggerPopup element =
     (if hasAttribute element ''onclick'' then True
      else
        let dataAttrs = map (\<lambda>a. toLowerCase (fst a)) (data_attributes element) in
        if list_ex (\<lambda>attr. list_ex (\<lambda>keyword. str_includes attr keyword) popupKeywords) dataAttrs
        then True
        else if attr_truthy (getAttribute element ''aria-expanded'')
                \<or> attr_truthy (getAttribute element ''aria-haspopup'') then True
        else
          let text = toLowerCase
                (case js_or (el_innerText element) (js_or (el_textContent element) (Some [])) of
                   Some t \<Rightarrow> t | None \<Rightarrow> [])
          in list_ex (\<lambda>keyword. str_includes text keyword) textKeywords)"

record popup_candidate =
  pc_tag :: string
  pc_text :: string
  pc_xpath :: string
  pc_class :: string
  pc_id :: "string option"
  pc_onclick :: "string option"
  pc_dataAttrs :: "(string \<times> string) list"
  pc_ariaHaspopup :: "string option"

definition popup_text :: "dom_element \<Rightarrow> string" where
  "popup_text element =
     (case js_or (map_option trim (el_innerText element))
             (js_or (map_option trim (el_textContent element)) (Some [])) of
        Some t \<Rightarrow> t
      | None \<Rightarrow> [])"

definition popup_scan_element ::
  "popup_candidate list \<times> string list \<Rightarrow> dom_element \<Rightarrow> popup_candidate list \<times> string list" where
  "popup_scan_element st element =
     (let popupTriggers = fst st; seenElements = snd st in
      if \<not> isVisible_popup element then st
      else
        let text = popup_text element in
        if text = [] \<or> length text > 100 then st
        else if mightTriggerPopup element then
          (let xpath = getXPath (el_node element) in
           if xpath \<in> set seenElements then st
           else (popupTriggers @
                   [\<lparr>pc_tag = toLowerCase (tagName element), pc_text = take 100 text,
                     pc_xpath = xpath, pc_class = className element,
                     pc_id = or_null (node_id (el_node element)),
                     pc_onclick = js_or (getAttribute element ''onclick'') None,
                     pc_dataAttrs = data_attributes element,
                     pc_ariaHaspopup = getAttribute element ''aria-haspopup''\<rparr>],
                 seenElements @ [xpath]))
        else st)"

text \<open>The script: scan
  \<open>document.querySelectorAll('button, a, [onclick], [role="button"]')\<close>, return the first 30.\<close>

definition dynamic_popup_detection :: "dom_element list \<Rightarrow> popup_candidate list" where
  "dynamic_popup_detection clickables =
     take 30 (fst (foldl popup_scan_element ([], []) clickables))"

section \<open>The confirmation passes\<close>

definition MAX_HOVER_ELEMENTS :: nat where
  "MAX_HOVER_ELEMENTS = 20"

definition MAX_POPUP_ELEMENTS :: nat where
  "MAX_POPUP_ELEMENTS = 10"

subsection \<open>Hover pass\<close>

text \<open>
  What the browser did while one candidate was probed, call by call:
  \<open>page.query_selector\<close> (\<open>Inr False\<close>: it returned \<open>None\<close>), the \<open>page.evaluate\<close> of the
  first \<open>_capture_page_state\<close>, \<open>element.hover()\<close>, the \<open>page.evaluate\<close> of the second
  \<open>_capture_page_state\<close>, and \<open>page.mouse.move(0, 0)\<close>. A call that is not reached is not
  read.
\<close>

record hover_probe =
  hp_query_selector :: "bool result"
  hp_state_before :: "page_state result"
  hp_hover :: "unit result"
  hp_state_after :: "page_state result"
  hp_mouse_move :: "unit result"

text \<open>\<open>{**elem_info, 'hover_confirmed': True, 'revealed_elements': revealed}\<close>\<close>

record confirmed_hover_element =
  che_info :: hover_candidate
  hover_confirmed :: bool
  revealed_elements :: "visible_element list"

text \<open>
  The body of the \<open>try\<close> inside the loop, for one candidate. It returns the list
  \<open>confirmed_hover_elements\<close> as the body left it, and \<open>Inl\<close> when the body was left by an
  exception.
\<close>

definition hover_try_body ::
  "hover_candidate \<Rightarrow> hover_probe \<Rightarrow> confirmed_hover_element list
     \<Rightarrow> confirmed_hover_element list \<times> unit result" where
  "hover_try_body elem_info probe confirmed =
     (case hp_query_selector probe of
        Inl e \<Rightarrow> (confirmed, Inl e)
      | Inr False \<Rightarrow> (confirmed, Inr ())
      | Inr True \<Rightarrow>
          let before_snapshot = capture_page_state (hp_state_before probe) in
          (case hp_hover probe of
             Inl e \<Rightarrow> (confirmed, Inl e)
           | Inr _ \<Rightarrow>
               let after_snapshot = capture_page_state (hp_state_after probe);
                   confirmed' =
                     (if has_content_changed before_snapshot after_snapshot
                      then confirmed @
                             [\<lparr>che_info = elem_info, hover_confirmed = True,
                               revealed_elements =
                                 get_revealed_elements before_snapshot after_snapshot\<rparr>]
                      else confirmed)
               in (case hp_mouse_move probe of
                     Inl e \<Rightarrow> (confirmed', Inl e)
                   | Inr _ \<Rightarrow> (confirmed', Inr ()))))"

text \<open>\<open>for i, elem_info in enumerate(...)\<close>: the \<open>except Exception\<close> of the loop logs and
  continues, so either way the loop goes on with the list as the body left it.\<close>

fun hover_loop ::
  "(nat \<Rightarrow> hover_probe) \<Rightarrow> nat \<Rightarrow> hover_candidate list \<Rightarrow> confirmed_hover_element list
     \<Rightarrow> confirmed_hover_element list" where
  "hover_loop probes i [] confirmed = confirmed"
| "hover_loop probes i (elem_info # rest) confirmed =
     (case hover_try_body elem_info (probes i) confirmed of
        (confirmed', Inl e) \<Rightarrow> hover_loop probes (i + 1) rest confirmed'
      | (confirmed', Inr _) \<Rightarrow> hover_loop probes (i + 1) rest confirmed')"

text \<open>
  The page during the hover pass: the \<open>page.evaluate\<close> of the detection script (it
  raised, or it ran over these \<open>document.querySelectorAll('*')\<close>), and the probe of the
  \<open>i\<close>-th candidate.
\<close>

record hover_page =
  hov_evaluate :: "dom_element list result"
  hov_probes :: "nat \<Rightarrow> hover_probe"

text \<open>The body of the outer \<open>try\<close> of \<open>analyze_hover_elements\<close>.\<close>

definition analyze_hover_try :: "hover_page \<Rightarrow> confirmed_hover_element list result" where
  "analyze_hover_try page =
     (case hov_evaluate page of
        Inl e \<Rightarrow> Inl e
      | Inr allElements \<Rightarrow>
          let potential_hover_elements = dynamic_hover_detection allElements
          in Inr (hover_loop (hov_probes page) 0
                    (take MAX_HOVER_ELEMENTS potential_hover_elements) []))"

text \<open>\<open>analyze_hover_elements\<close>: \<open>Inr\<close> is a returned list, \<open>Inl\<close> an exception that
  reaches the caller.\<close>

definition analyze_hover_elements :: "hover_page \<Rightarrow> confirmed_hover_element list result" where
  "analyze_hover_elements page =
     (case analyze_hover_try page of
        Inr confirmed \<Rightarrow> Inr confirmed
      | Inl e \<Rightarrow> Inr [])"

subsection \<open>Popup pass\<close>

definition dq :: string where
  "dq = [CHR 0x22]"

definition count_selectors :: "string list" where
  "count_selectors =
     [''[role='' @ dq @ ''dialog'' @ dq @ '']'', ''.modal'', ''.popup'',
      ''[class*='' @ dq @ ''modal'' @ dq @ '']'', ''[class*='' @ dq @ ''popup'' @ dq @ '']'',
      ''[class*='' @ dq @ ''dialog'' @ dq @ '']'', ''[class*='' @ dq @ ''overlay'' @ dq @ '']'']"

definition detail_selectors :: "string list" where
  "detail_selectors =
     [''[role='' @ dq @ ''dialog'' @ dq @ '']'', ''.modal'', ''.popup'',
      ''[class*='' @ dq @ ''modal'' @ dq @ '']'', ''[class*='' @ dq @ ''popup'' @ dq @ '']'']"

definition modal_shown :: "rat \<Rightarrow> dom_element \<Rightarrow> bool" where
  "modal_shown minimum el =
     (display (el_style el) \<noteq> ''none'' \<and> visibility (el_style el) \<noteq> ''hidden''
      \<and> fst (el_rect el) > minimum \<and> snd (el_rect el) > minimum)"

text \<open>
  The script of \<open>_count_modals\<close>, given \<open>document.querySelectorAll\<close> as a function of the
  selector: one count per selector and matched visible element.
\<close>

definition count_modals_script :: "(string \<Rightarrow> dom_element list) \<Rightarrow> nat" where
  "count_modals_script querySelectorAll =
     foldl (\<lambda>count selector.
              foldl (\<lambda>count el. if modal_shown 0 el then count + 1 else count)
                    count (querySelectorAll selector))
           0 count_selectors"

definition count_modals :: "(string \<Rightarrow> dom_element list) result \<Rightarrow> nat" where
  "count_modals evaluated =
     (case evaluated of
        Inr querySelectorAll \<Rightarrow> count_modals_script querySelectorAll
      | Inl _ \<Rightarrow> 0)"

record modal_description =
  md_text :: "string option"
  md_class :: string
  md_role :: "string option"
  hasCloseButton :: bool

definition get_modal_details_script ::
  "(string \<Rightarrow> dom_element list) \<Rightarrow> modal_description list" where
  "get_modal_details_script querySelectorAll =
     foldl (\<lambda>modals selector.
              foldl (\<lambda>modals el.
                       if modal_shown 100 el
                       then modals @
                              [\<lparr>md_text = map_option (\<lambda>t. take 200 (trim t)) (el_innerText el),
                                md_class = className el,
                                md_role = getAttribute el ''role'',
                                hasCloseButton = el_has_close el\<rparr>]
                       else modals)
                    modals (querySelectorAll selector))
           [] detail_selectors"

definition get_modal_details ::
  "(string \<Rightarrow> dom_element list) result \<Rightarrow> modal_description list" where
  "get_modal_details evaluated =
     (case evaluated of
        Inr querySelectorAll \<Rightarrow> get_modal_details_script querySelectorAll
      | Inl _ \<Rightarrow> [])"

text \<open>
  \<open>_close_any_modal\<close>: \<open>cl_escape\<close> is \<open>keyboard.press('Escape')\<close>; for each close selector
  \<open>cl_query\<close> is \<open>page.query_selector\<close> (\<open>Inr True\<close>: a button was found) and \<open>cl_click\<close>
  the click on it. The result is the list of selectors whose button was clicked.
\<close>

record close_probe =
  cl_escape :: "unit result"
  cl_query :: "string \<Rightarrow> bool result"
  cl_click :: "string \<Rightarrow> unit result"

definition close_selectors :: "string list" where
  "close_selectors =
     [''[aria-label*='' @ dq @ ''close'' @ dq @ '']'', ''[class*='' @ dq @ ''close'' @ dq @ '']'',
      ''button[class*='' @ dq @ ''close'' @ dq @ '']'', ''.modal button'',
      ''[role='' @ dq @ ''dialog'' @ dq @ ''] button'']"

fun close_loop :: "close_probe \<Rightarrow> string list \<Rightarrow> string list" where
  "close_loop probe [] = []"
| "close_loop probe (selector # rest) =
     (case cl_query probe selector of
        Inl _ \<Rightarrow> close_loop probe rest
      | Inr False \<Rightarrow> close_loop probe rest
      | Inr True \<Rightarrow>
          (case cl_click probe selector of
             Inl _ \<Rightarrow> close_loop probe rest
           | Inr _ \<Rightarrow> [selector]))"

definition close_any_modal :: "close_probe \<Rightarrow> string list result" where
  "close_any_modal probe =
     (case cl_escape probe of
        Inl _ \<Rightarrow> Inr []
      | Inr _ \<Rightarrow> Inr (close_loop probe close_selectors))"

text \<open>
  What the browser did while one popup candidate was probed: \<open>page.query_selector\<close>, the
  \<open>page.evaluate\<close> of \<open>_count_modals\<close> before the click, \<open>element.click()\<close>, the
  \<open>page.evaluate\<close> of \<open>_count_modals\<close> and of \<open>_get_modal_details\<close> after it, and the
  calls of \<open>_close_any_modal\<close>.
\<close>

record popup_probe =
  pp_query_selector :: "bool result"
  pp_modals_before :: "(string \<Rightarrow> dom_element list) result"
  pp_click :: "unit result"
  pp_modals_after :: "(string \<Rightarrow> dom_element list) result"
  pp_details :: "(string \<Rightarrow> dom_element list) result"
  pp_close :: close_probe

text \<open>\<open>{**trigger_info, 'popup_confirmed': True, 'popup_details': modal_details}\<close>\<close>

record confirmed_popup_trigger =
  cpt_info :: popup_candidate
  popup_confirmed :: bool
  popup_details :: "modal_description list"

definition popup_try_body ::
  "popup_candidate \<Rightarrow> popup_probe \<Rightarrow> confirmed_popup_trigger list
     \<Rightarrow> confirmed_popup_trigger list \<times> unit result" where
  "popup_try_body trigger_info probe confirmed =
     (case pp_query_selector probe of
        Inl e \<Rightarrow> (confirmed, Inl e)
      | Inr False \<Rightarrow> (confirmed, Inr ())
      | Inr True \<Rightarrow>
          let before_modals = count_modals (pp_modals_before probe) in
          (case pp_click probe of
             Inl e \<Rightarrow> (confirmed, Inl e)
           | Inr _ \<Rightarrow>
               let after_modals = count_modals (pp_modals_after probe);
                   modal_details = get_modal_details (pp_details probe)
               in if after_modals > before_modals \<or> modal_details \<noteq> []
                  then
                    (let confirmed' = confirmed @
                           [\<lparr>cpt_info = trigger_info, popup_confirmed = True,
                             popup_details = modal_details\<rparr>]
                     in case close_any_modal (pp_close probe) of
                          Inl e \<Rightarrow> (confirmed', Inl e)
                        | Inr _ \<Rightarrow> (confirmed', Inr ()))
                  else (confirmed, Inr ())))"

text \<open>The loop; its \<open>except Exception\<close> tries \<open>_close_any_modal\<close>, swallows whatever that
  raises, and continues.\<close>

fun popup_loop ::
  "(nat \<Rightarrow> popup_probe) \<Rightarrow> nat \<Rightarrow> popup_candidate list \<Rightarrow> confirmed_popup_trigger list
     \<Rightarrow> confirmed_popup_trigger list" where
  "popup_loop probes i [] confirmed = confirmed"
| "popup_loop probes i (trigger_info # rest) confirmed =
     (case popup_try_body trigger_info (probes i) confirmed of
        (confirmed', Inl e) \<Rightarrow>
          (case close_any_modal (pp_close (probes i)) of
             Inl _ \<Rightarrow> popup_loop probes (i + 1) rest confirmed'
           | Inr _ \<Rightarrow> popup_loop probes (i + 1) rest confirmed')
      | (confirmed', Inr _) \<Rightarrow> popup_loop probes (i + 1) rest confirmed')"

text \<open>
  The page during the popup pass: the first \<open>page.query_selector_all\<close> (its result is
  overwritten, only a raise matters), the \<open>page.evaluate\<close> of the detection script over
  the clickable elements, and the probe of the \<open>i\<close>-th candidate.
\<close>

record popup_page =
  pop_query_selector_all :: "unit result"
  pop_evaluate :: "dom_element list result"
  pop_probes :: "nat \<Rightarrow> popup_probe"

definition analyze_popup_try :: "popup_page \<Rightarrow> confirmed_popup_trigger list result" where
  "analyze_popup_try page =
     (case pop_query_selector_all page of
        Inl e \<Rightarrow> Inl e
      | Inr _ \<Rightarrow>
          (case pop_evaluate page of
             Inl e \<Rightarrow> Inl e
           | Inr clickables \<Rightarrow>
               let potential_triggers = dynamic_popup_detection clickables
               in Inr (popup_loop (pop_probes page) 0
                         (take MAX_POPUP_ELEMENTS potential_triggers) [])))"

definition analyze_popup_elements :: "popup_page \<Rightarrow> confirmed_popup_trigger list result" where
  "analyze_popup_elements page =
     (case analyze_popup_try page of
        Inr confirmed \<Rightarrow> Inr confirmed
      | Inl e \<Rightarrow> Inr [])"

section \<open>The scenario generator (\<open>src/core/gherkin_generator.py\<close>)\<close>

definition nl :: string where
  "nl = [CHR 0x0A]"

text \<open>\<open>str.replace(pattern, "")\<close> for a non-empty pattern: occurrences are removed from
  left to right.\<close>

function remove_all :: "string \<Rightarrow> string \<Rightarrow> string" where
  "remove_all pat [] = []"
| "remove_all pat (c # cs) =
     (if pat \<noteq> [] \<and> startsWith (c # cs) pat
      then remove_all pat (drop (length pat) (c # cs))
      else c # remove_all pat cs)"
  by pat_completeness auto
termination
  by (relation "measure (\<lambda>(pat, s). length s)") (auto simp: neq_Nil_conv)

text \<open>\<open>str.split('\n')\<close>.\<close>

fun split_lines :: "string \<Rightarrow> string list" where
  "split_lines [] = [[]]"
| "split_lines (c # cs) =
     (if c = CHR 0x0A then [] # split_lines cs
      else (case split_lines cs of
              [] \<Rightarrow> [[c]]
            | l # ls \<Rightarrow> (c # l) # ls))"

text \<open>\<open>str.strip()\<close> and \<open>str.rstrip()\<close> on ASCII whitespace.\<close>

definition py_space :: "char \<Rightarrow> bool" where
  "py_space c = (c \<in> set [CHR '' '', CHR 0x09, CHR 0x0A, CHR 0x0B, CHR 0x0C, CHR 0x0D,
                            CHR 0x1C, CHR 0x1D, CHR 0x1E, CHR 0x1F])"

definition rstrip :: "string \<Rightarrow> string" where
  "rstrip s = rev (dropWhile py_space (rev s))"

definition strip :: "string \<Rightarrow> string" where
  "strip s = rstrip (dropWhile py_space s)"

text \<open>The first loop of \<open>_clean_gherkin_output\<close>, on \<open>cleaned_lines\<close> and
  \<open>skip_until_scenario\<close>.\<close>

fun clean_lines :: "string list \<Rightarrow> string list \<Rightarrow> bool \<Rightarrow> string list" where
  "clean_lines [] cleaned_lines skip_until_scenario = cleaned_lines"
| "clean_lines (line # rest) cleaned_lines skip_until_scenario =
     (let stripped = strip line in
      if startsWith stripped ''As a'' \<or> startsWith stripped ''I want''
         \<or> startsWith stripped ''So that''
      then clean_lines rest cleaned_lines True
      else if startsWith stripped ''Background:''
      then clean_lines rest cleaned_lines True
      else
        let skip = (if startsWith stripped ''Feature:'' \<or> startsWith stripped ''Scenario:''
                    then False else skip_until_scenario)
        in if \<not> skip \<and> strip line \<noteq> []
           then clean_lines rest (cleaned_lines @ [rstrip line]) skip
           else clean_lines rest cleaned_lines skip)"

text \<open>The second loop, on \<open>final_lines\<close> and \<open>prev_blank\<close>.\<close>

fun space_lines :: "string list \<Rightarrow> string list \<Rightarrow> bool \<Rightarrow> string list" where
  "space_lines [] final_lines prev_blank = final_lines"
| "space_lines (line # rest) final_lines prev_blank =
     (if strip line = []
      then (if \<not> prev_blank then space_lines rest (final_lines @ [line]) True
            else space_lines rest final_lines prev_blank)
      else
        (if startsWith (strip line) ''Feature:''
         then space_lines rest (final_lines @ [line] @ [[]]) False
         else space_lines rest (final_lines @ [line]) False))"

definition clean_gherkin_output :: "string \<Rightarrow> string" where
  "clean_gherkin_output content =
     (let content1 = remove_all ''```'' (remove_all ''```gherkin'' content);
          cleaned_lines = clean_lines (split_lines content1) [] False;
          final_lines = space_lines cleaned_lines [] False
      in join nl final_lines)"

definition generate_generic_hover_feature :: "string \<Rightarrow> string" where
  "generate_generic_hover_feature page_url =
     join nl
       [''Feature: Validate navigation menu functionality'',
        '''',
        ''Scenario: Verify hover reveals dropdown menu'',
        ''  Given the user is on the '' @ dq @ page_url @ dq @ '' page'',
        ''  When the user hovers over a navigation menu item'',
        ''  Then a dropdown menu should appear'',
        ''  And the menu should contain clickable options'',
        '''',
        ''Scenario: Verify navigation through dropdown menu'',
        ''  Given the user is on the '' @ dq @ page_url @ dq @ '' page'',
        ''  When the user hovers over a navigation menu item'',
        ''  And clicks a link from the dropdown'',
        ''  Then the page URL should change to the selected page'']"

definition generate_generic_popup_feature :: "string \<Rightarrow> string" where
  "generate_generic_popup_feature page_url =
     join nl
       [''Feature: Validate pop-up functionality'',
        '''',
        ''Scenario: Verify the cancel button in the pop-up'',
        ''  Given the user is on the '' @ dq @ page_url @ dq @ '' page'',
        ''  When the user clicks a button that triggers a pop-up'',
        ''  Then a pop-up should appear'',
        ''  And the user clicks the '' @ dq @ ''Cancel'' @ dq @ '' button'',
        ''  Then the pop-up should close and the user should remain on the same page'',
        '''',
        ''Scenario: Verify the continue button in the pop-up'',
        ''  Given the user is on the '' @ dq @ page_url @ dq @ '' page'',
        ''  When the user clicks a button that triggers a pop-up'',
        ''  Then a pop-up should appear'',
        ''  And the user clicks the '' @ dq @ ''Continue'' @ dq @ '' button'',
        ''  Then the expected action should be performed'']"

text \<open>
  \<open>generate_hover_features\<close>. \<open>llm_generate\<close> is what \<open>self.llm.generate(prompt,
  system_prompt)\<close> did: it raised, or it returned a text. Its \<open>except\<close> logs and re-raises.
  Building the hover prompt slices texts that are strings, and does not raise.
\<close>

definition generate_hover_features ::
  "string result \<Rightarrow> string \<Rightarrow> confirmed_hover_element list \<Rightarrow> string result" where
  "generate_hover_features llm_generate page_url elements =
     (if elements = [] then Inr (generate_generic_hover_feature page_url)
      else (case llm_generate of
              Inl e \<Rightarrow> Inl e
            | Inr feature_content \<Rightarrow> Inr (clean_gherkin_output feature_content)))"

text \<open>
  \<open>generate_popup_features\<close>. \<open>_create_popup_prompt\<close> evaluates
  \<open>popup_details[0].get('text', '')[:150]\<close>, which raises \<open>TypeError\<close> when that text is
  \<open>None\<close>.
\<close>

definition popup_prompt_raises :: "confirmed_popup_trigger \<Rightarrow> bool" where
  "popup_prompt_raises elem =
     (case popup_details elem of
        [] \<Rightarrow> False
      | d # _ \<Rightarrow> md_text d = None)"

definition generate_popup_features ::
  "string result \<Rightarrow> string \<Rightarrow> confirmed_popup_trigger list \<Rightarrow> string result" where
  "generate_popup_features llm_generate page_url elements =
     (if elements = [] then Inr (generate_generic_popup_feature page_url)
      else if list_ex popup_prompt_raises elements
      then Inl ([CHR 0x27] @ ''NoneType'' @ [CHR 0x27] @ '' object is not subscriptable'')
      else (case llm_generate of
              Inl e \<Rightarrow> Inl e
            | Inr feature_content \<Rightarrow> Inr (clean_gherkin_output feature_content)))"

section \<open>The durable store (\<open>src/core/database.py\<close>)\<close>

text \<open>
  The tables the pipeline writes. Row ids are assigned in order from 1 and no row is
  deleted, so \<open>test_tasks\<close> is the list of its rows and the task with id \<open>k\<close> is at
  position \<open>k - 1\<close>. The provider, model and time-stamp columns are left out. The store
  is taken to work: a write does not raise.
\<close>

record task_row =
  row_url :: string
  row_status :: string
  row_progress :: int
  row_current_step :: "string option"
  row_error_message :: "string option"

datatype page_structure =
  EmptyStructure
  | Structure (title: string) (page_url: string) (nav_elements: nat) (buttons: nat)
              (links: nat) (forms: nat) (has_navigation: bool)

record dom_analysis_row =
  da_task_id :: nat
  da_hover_elements :: "confirmed_hover_element list"
  da_popup_elements :: "confirmed_popup_trigger list"
  da_page_structure :: page_structure

record feature_row =
  fr_task_id :: nat
  feature_type :: string
  feature_content :: string
  file_path :: string

record log_row =
  lr_task_id :: nat
  log_level :: string
  message :: string
  details :: "nat option"

record database =
  test_tasks :: "task_row list"
  dom_analysis :: "dom_analysis_row list"
  generated_features :: "feature_row list"
  execution_logs :: "log_row list"

definition create_task :: "string \<Rightarrow> database \<Rightarrow> nat \<times> database" where
  "create_task task_url d =
     (length (test_tasks d) + 1,
      d\<lparr>test_tasks := test_tasks d @
           [\<lparr>row_url = task_url, row_status = ''pending'', row_progress = 0,
             row_current_step = None, row_error_message = None\<rparr>]\<rparr>)"

definition get_task :: "database \<Rightarrow> nat \<Rightarrow> task_row option" where
  "get_task d k =
     (if 0 < k \<and> k \<le> length (test_tasks d) then Some (test_tasks d ! (k - 1)) else None)"

text \<open>\<open>update_task_status\<close>: an \<open>UPDATE ... WHERE id = ?\<close>; a column whose argument is
  \<open>None\<close> keeps its value, an unknown id changes nothing.\<close>

definition update_task_status ::
  "nat \<Rightarrow> string \<Rightarrow> int option \<Rightarrow> string option \<Rightarrow> string option \<Rightarrow> database \<Rightarrow> database" where
  "update_task_status k new_status new_progress step err d =
     (case get_task d k of
        None \<Rightarrow> d
      | Some row \<Rightarrow>
          d\<lparr>test_tasks := (test_tasks d)[k - 1 :=
              row\<lparr>row_status := new_status,
                  row_progress := (case new_progress of Some p \<Rightarrow> p | None \<Rightarrow> row_progress row),
                  row_current_step := (case step of Some s \<Rightarrow> Some s | None \<Rightarrow> row_current_step row),
                  row_error_message :=
                    (case err of Some m \<Rightarrow> Some m | None \<Rightarrow> row_error_message row)\<rparr>]\<rparr>)"

definition save_dom_analysis ::
  "nat \<Rightarrow> confirmed_hover_element list \<Rightarrow> confirmed_popup_trigger list \<Rightarrow> page_structure
     \<Rightarrow> database \<Rightarrow> database" where
  "save_dom_analysis k hovers popups structure d =
     d\<lparr>dom_analysis := dom_analysis d @
         [\<lparr>da_task_id = k, da_hover_elements = hovers, da_popup_elements = popups,
           da_page_structure = structure\<rparr>]\<rparr>"

definition save_feature :: "nat \<Rightarrow> string \<Rightarrow> string \<Rightarrow> string \<Rightarrow> database \<Rightarrow> database" where
  "save_feature k kind content path d =
     d\<lparr>generated_features := generated_features d @
         [\<lparr>fr_task_id = k, feature_type = kind, feature_content = content, file_path = path\<rparr>]\<rparr>"

definition add_log :: "nat \<Rightarrow> string \<Rightarrow> string \<Rightarrow> nat option \<Rightarrow> database \<Rightarrow> database" where
  "add_log k level msg count d =
     d\<lparr>execution_logs := execution_logs d @
         [\<lparr>lr_task_id = k, log_level = level, message = msg, details = count\<rparr>]\<rparr>"

section \<open>The pipeline (\<open>src/orchestrator.py\<close>)\<close>

subsection \<open>The progress sink\<close>

record ws_message =
  msg_type :: string
  msg_task_id :: nat
  msg_status :: string
  msg_progress :: "int option"
  msg_current_step :: "string option"
  msg_error :: "string option"

text \<open>
  What a run changes: the durable store, the messages handed to \<open>send_ws_update\<close> in
  order (\<open>ws_sent\<close>), those that \<open>websocket_manager.send_update\<close> took without raising
  (\<open>ws_delivered\<close>), the lines \<open>send_ws_update\<close> logs, and the feature files written.
\<close>

record world =
  db :: database
  ws_sent :: "ws_message list"
  ws_delivered :: "ws_message list"
  debug_log :: "string list"
  files :: "(string \<times> string) list"

text \<open>
  What a run meets. \<open>websocket_manager\<close> is \<open>None\<close> when no manager was set, else it
  tells for the \<open>n\<close>-th message of the run whether \<open>send_update\<close> raised.
  \<open>browser_initialize\<close> is \<open>BrowserAutomation.initialize\<close>, \<open>page_goto\<close> the
  \<open>page.goto\<close> of \<open>navigate_to_url\<close>, \<open>page_content\<close> the body of
  \<open>get_page_structure\<close>, \<open>create_provider\<close> the \<open>LLMFactory.create_provider\<close> inside
  \<open>create_gherkin_generator\<close>, \<open>llm_hover\<close> and \<open>llm_popup\<close> the two \<open>llm.generate\<close>
  calls, \<open>now_hover\<close> and \<open>now_popup\<close> the formatted \<open>datetime.now()\<close>. Writing a feature
  file is taken to work, like the store.
\<close>

record env =
  websocket_manager :: "(nat \<Rightarrow> unit result) option"
  browser_initialize :: "unit result"
  page_goto :: "unit result"
  page_content :: "page_structure result"
  hover_pass :: hover_page
  popup_pass :: popup_page
  create_provider :: "unit result"
  llm_hover :: "string result"
  llm_popup :: "string result"
  now_hover :: string
  now_popup :: string
  OUTPUTS_DIR :: string

text \<open>\<open>send_ws_update\<close>: \<open>Inl\<close> would be an exception leaving it.\<close>

definition send_ws_update :: "env \<Rightarrow> ws_message \<Rightarrow> world \<Rightarrow> world \<times> unit result" where
  "send_ws_update e update w =
     (let w1 = w\<lparr>ws_sent := ws_sent w @ [update]\<rparr> in
      case websocket_manager e of
        None \<Rightarrow> (w1, Inr ())
      | Some send_update \<Rightarrow>
          (case send_update (length (ws_sent w)) of
             Inr _ \<Rightarrow> (w1\<lparr>ws_delivered := ws_delivered w1 @ [update]\<rparr>, Inr ())
           | Inl err \<Rightarrow>
               (w1\<lparr>debug_log := debug_log w1 @ [''WebSocket update failed: '' @ err]\<rparr>,
                Inr ())))"

text \<open>Sequencing inside a \<open>try\<close>: a raised exception skips the rest.\<close>

definition and_then ::
  "world \<times> 'a result \<Rightarrow> (world \<Rightarrow> 'a \<Rightarrow> world \<times> 'b result) \<Rightarrow> world \<times> 'b result" where
  "and_then r f = (case snd r of Inl err \<Rightarrow> (fst r, Inl err) | Inr v \<Rightarrow> f (fst r) v)"

definition status_message :: "nat \<Rightarrow> int \<Rightarrow> string \<Rightarrow> ws_message" where
  "status_message k p step =
     \<lparr>msg_type = ''status'', msg_task_id = k, msg_status = ''running'',
      msg_progress = Some p, msg_current_step = Some step, msg_error = None\<rparr>"

definition on_db :: "(database \<Rightarrow> database) \<Rightarrow> world \<Rightarrow> world" where
  "on_db f w = w\<lparr>db := f (db w)\<rparr>"

subsection \<open>The run state and the partial updates\<close>

record feature_info =
  fi_content :: string
  fi_file :: string
  fi_path :: string

record run_result =
  rr_task_id :: nat
  rr_status :: string
  rr_url :: string
  rr_hover :: "feature_info option"
  rr_popup :: "feature_info option"
  rr_hover_elements :: "confirmed_hover_element list option"
  rr_popup_elements :: "confirmed_popup_trigger list option"
  rr_page_structure :: "page_structure option"

text \<open>\<open>WorkflowState\<close>, without the two configuration dictionaries.\<close>

record workflow_state =
  url :: string
  task_id :: "nat option"
  status :: string
  progress :: int
  current_step :: string
  error_message :: "string option"
  browser_initialized :: bool
  page_structure :: "page_structure option"
  hover_elements :: "confirmed_hover_element list option"
  popup_elements :: "confirmed_popup_trigger list option"
  hover_features :: "feature_info option"
  popup_features :: "feature_info option"
  result :: "run_result option"
  logs :: "string list"

text \<open>The dictionary a node returns: \<open>None\<close> is a key that is not in it.\<close>

record update =
  u_task_id :: "nat option"
  u_status :: "string option"
  u_progress :: "int option"
  u_current_step :: "string option"
  u_error_message :: "string option"
  u_browser_initialized :: "bool option"
  u_page_structure :: "page_structure option"
  u_hover_elements :: "confirmed_hover_element list option"
  u_popup_elements :: "confirmed_popup_trigger list option"
  u_hover_features :: "feature_info option"
  u_popup_features :: "feature_info option"
  u_result :: "run_result option"
  u_logs :: "string list"

definition no_update :: update where
  "no_update =
     \<lparr>u_task_id = None, u_status = None, u_progress = None, u_current_step = None,
      u_error_message = None, u_browser_initialized = None, u_page_structure = None,
      u_hover_elements = None, u_popup_elements = None, u_hover_features = None,
      u_popup_features = None, u_result = None, u_logs = []\<rparr>"

text \<open>\<open>{"status": "failed", "error_message": error_msg, "logs": [error_msg]}\<close>\<close>

definition failed_update :: "string \<Rightarrow> update" where
  "failed_update error_msg =
     no_update\<lparr>u_status := Some ''failed'', u_error_message := Some error_msg,
               u_logs := [error_msg]\<rparr>"

definition keep :: "'a option \<Rightarrow> 'a \<Rightarrow> 'a" where
  "keep new old = (case new of Some v \<Rightarrow> v | None \<Rightarrow> old)"

definition keep_opt :: "'a option \<Rightarrow> 'a option \<Rightarrow> 'a option" where
  "keep_opt new old = (case new of Some v \<Rightarrow> Some v | None \<Rightarrow> old)"

text \<open>How the graph merges an update into the state: a key of the update replaces the
  value, \<open>logs\<close> (declared with \<open>operator.add\<close>) is appended.\<close>

definition merge_update :: "workflow_state \<Rightarrow> update \<Rightarrow> workflow_state" where
  "merge_update s u =
     s\<lparr>task_id := keep_opt (u_task_id u) (task_id s),
       status := keep (u_status u) (status s),
       progress := keep (u_progress u) (progress s),
       current_step := keep (u_current_step u) (current_step s),
       error_message := keep_opt (u_error_message u) (error_message s),
       browser_initialized := keep (u_browser_initialized u) (browser_initialized s),
       page_structure := keep_opt (u_page_structure u) (page_structure s),
       hover_elements := keep_opt (u_hover_elements u) (hover_elements s),
       popup_elements := keep_opt (u_popup_elements u) (popup_elements s),
       hover_features := keep_opt (u_hover_features u) (hover_features s),
       popup_features := keep_opt (u_popup_features u) (popup_features s),
       result := keep_opt (u_result u) (result s),
       logs := logs s @ u_logs u\<rparr>"

text \<open>\<open>state["task_id"]\<close> as a row id: \<open>None\<close> reads as 0, the id of no row. It is not
  reached after \<open>create_task\<close>, which stores an id.\<close>

definition state_task_id :: "workflow_state \<Rightarrow> nat" where
  "state_task_id s = (case task_id s of Some k \<Rightarrow> k | None \<Rightarrow> 0)"

definition or_empty :: "'a list option \<Rightarrow> 'a list" where
  "or_empty xs = (case xs of Some l \<Rightarrow> l | None \<Rightarrow> [])"

subsection \<open>The nodes\<close>

text \<open>
  A node takes the run state and returns the world it leaves and either its update
  (\<open>Inr\<close>) or the exception that leaves the node (\<open>Inl\<close>).
\<close>

definition create_task_node :: "env \<Rightarrow> workflow_state \<Rightarrow> world \<Rightarrow> world \<times> update result" where
  "create_task_node e state w =
     (let created = create_task (url state) (db w);
          k = fst created;
          w1 = w\<lparr>db := snd created\<rparr>;
          w2 = on_db (update_task_status k ''running'' (Some 0) (Some ''Initializing'') None) w1;
          w3 = on_db (add_log k ''INFO'' (''Starting test generation for '' @ url state) None) w2;
          body = and_then (send_ws_update e (status_message k 0 ''Initializing browser'') w3)
                   (\<lambda>w4 _. (w4, Inr (no_update\<lparr>u_task_id := Some k, u_status := Some ''running'',
                                      u_progress := Some 5,
                                      u_current_step := Some ''Task created'',
                                      u_logs := [''Task '' @ string_of_nat k @ '' created for ''
                                                 @ url state]\<rparr>)))
      in case snd body of
           Inr u \<Rightarrow> (fst body, Inr u)
         | Inl err \<Rightarrow> (fst body, Inr (failed_update (''Failed to create task: '' @ err))))"

definition navigate_to_url :: "unit result \<Rightarrow> bool" where
  "navigate_to_url goto = (case goto of Inr _ \<Rightarrow> True | Inl _ \<Rightarrow> False)"

definition get_page_structure :: "page_structure result \<Rightarrow> page_structure" where
  "get_page_structure body = (case body of Inr structure \<Rightarrow> structure | Inl _ \<Rightarrow> EmptyStructure)"

text \<open>\<open>page_structure.get("title", "Unknown")\<close>\<close>

definition title_or_unknown :: "page_structure \<Rightarrow> string" where
  "title_or_unknown structure =
     (case structure of EmptyStructure \<Rightarrow> ''Unknown'' | Structure t _ _ _ _ _ _ \<Rightarrow> t)"

text \<open>
  The body of the \<open>try\<close> of \<open>browser_analysis_subgraph\<close>. The \<open>async with\<close> closes the
  browser on every way out, and \<open>close\<close> swallows its own exceptions, so leaving the block
  raises nothing new.
\<close>

definition browser_analysis_try ::
  "env \<Rightarrow> workflow_state \<Rightarrow> world \<Rightarrow> world \<times> update result" where
  "browser_analysis_try e state w =
     (let k = state_task_id state; target = url state;
          w1 = on_db (update_task_status k ''running'' (Some 10) (Some ''Launching browser'') None) w
      in and_then (send_ws_update e (status_message k 10 ''Launching browser'') w1) (\<lambda>w2 _.
         and_then (w2, browser_initialize e) (\<lambda>w3 _.
         and_then (send_ws_update e (status_message k 20 (''Loading '' @ target))
                     (on_db (update_task_status k ''running'' (Some 20)
                               (Some (''Loading '' @ target)) None) w3)) (\<lambda>w4 _.
         if \<not> navigate_to_url (page_goto e) then (w4, Inl (''Failed to load URL: '' @ target))
         else
         and_then (send_ws_update e (status_message k 30 ''Analyzing page structure'')
                     (on_db (update_task_status k ''running'' (Some 30)
                               (Some ''Analyzing page structure'') None)
                        (on_db (add_log k ''INFO'' (''Successfully loaded '' @ target) None) w4)))
           (\<lambda>w5 _.
         let structure = get_page_structure (page_content e) in
         and_then (send_ws_update e (status_message k 40 ''Detecting hover elements'')
                     (on_db (update_task_status k ''running'' (Some 40)
                               (Some ''Detecting hover elements'') None)
                        (on_db (add_log k ''INFO''
                                  (''Page structure analyzed: '' @ title_or_unknown structure) None)
                           w5))) (\<lambda>w6 _.
         and_then (w6, analyze_hover_elements (hover_pass e)) (\<lambda>w7 hovers.
         and_then (send_ws_update e (status_message k 60 ''Detecting popup/modal elements'')
                     (on_db (update_task_status k ''running'' (Some 60)
                               (Some ''Detecting popup/modal elements'') None)
                        (on_db (add_log k ''INFO''
                                  (''Found '' @ string_of_nat (length hovers) @ '' hover elements'')
                                  (Some (length hovers))) w7))) (\<lambda>w8 _.
         and_then (w8, analyze_popup_elements (popup_pass e)) (\<lambda>w9 popups.
         let w10 = on_db (add_log k ''INFO''
                            (''Found '' @ string_of_nat (length popups) @ '' popup elements'')
                            (Some (length popups))) w9;
             w11 = on_db (save_dom_analysis k hovers popups structure) w10
         in (w11, Inr (no_update\<lparr>u_page_structure := Some structure,
                                 u_hover_elements := Some hovers,
                                 u_popup_elements := Some popups,
                                 u_browser_initialized := Some True,
                                 u_progress := Some 65,
                                 u_current_step := Some ''Browser analysis complete'',
                                 u_logs :=
                                   [''Page structure analyzed: '' @ title_or_unknown structure,
                                    ''Found '' @ string_of_nat (length hovers) @ '' hover elements'',
                                    ''Found '' @ string_of_nat (length popups)
                                      @ '' popup elements'']\<rparr>)))))))))))"

definition browser_analysis_subgraph ::
  "env \<Rightarrow> workflow_state \<Rightarrow> world \<Rightarrow> world \<times> update result" where
  "browser_analysis_subgraph e state w =
     (let body = browser_analysis_try e state w in
      case snd body of
        Inr u \<Rightarrow> (fst body, Inr u)
      | Inl err \<Rightarrow> (fst body, Inr (failed_update (''Browser analysis error: '' @ err))))"

definition save_feature_file :: "env \<Rightarrow> string \<Rightarrow> string \<Rightarrow> world \<Rightarrow> world \<times> string" where
  "save_feature_file e content filename w =
     (let filepath = OUTPUTS_DIR e @ ''/'' @ filename
      in (w\<lparr>files := files w @ [(filepath, content)]\<rparr>, filepath))"

definition generate_hover_features_try ::
  "env \<Rightarrow> workflow_state \<Rightarrow> world \<Rightarrow> world \<times> update result" where
  "generate_hover_features_try e state w =
     (let k = state_task_id state;
          w1 = on_db (update_task_status k ''running'' (Some 70)
                        (Some ''Generating hover test scenarios'') None) w
      in and_then (send_ws_update e (status_message k 70 ''Generating hover test scenarios'') w1)
           (\<lambda>w2 _.
         and_then (w2, create_provider e) (\<lambda>w3 _.
         and_then (w3, generate_hover_features (llm_hover e) (url state)
                         (or_empty (hover_elements state))) (\<lambda>w4 hover_features_content.
         let hover_filename = ''hover_tests_'' @ now_hover e @ ''.feature'';
             saved = save_feature_file e hover_features_content hover_filename w4;
             hover_filepath = snd saved;
             w5 = on_db (save_feature k ''hover'' hover_features_content hover_filepath) (fst saved);
             w6 = on_db (add_log k ''INFO'' (''Generated hover features: '' @ hover_filename) None) w5
         in (w6, Inr (no_update\<lparr>u_hover_features :=
                                   Some \<lparr>fi_content = hover_features_content,
                                         fi_file = hover_filename, fi_path = hover_filepath\<rparr>,
                                u_progress := Some 80,
                                u_current_step := Some ''Hover features generated'',
                                u_logs := [''Generated hover features: '' @ hover_filename]\<rparr>))))))"

definition generate_hover_features_node ::
  "env \<Rightarrow> workflow_state \<Rightarrow> world \<Rightarrow> world \<times> update result" where
  "generate_hover_features_node e state w =
     (let body = generate_hover_features_try e state w in
      case snd body of
        Inr u \<Rightarrow> (fst body, Inr u)
      | Inl err \<Rightarrow>
          (let error_msg = ''Hover feature generation failed: '' @ err
           in (on_db (add_log (state_task_id state) ''ERROR'' error_msg None) (fst body),
               Inr (failed_update error_msg))))"

definition generate_popup_features_try ::
  "env \<Rightarrow> workflow_state \<Rightarrow> world \<Rightarrow> world \<times> update result" where
  "generate_popup_features_try e state w =
     (let k = state_task_id state;
          w1 = on_db (update_task_status k ''running'' (Some 85)
                        (Some ''Generating popup test scenarios'') None) w
      in and_then (send_ws_update e (status_message k 85 ''Generating popup test scenarios'') w1)
           (\<lambda>w2 _.
         and_then (w2, create_provider e) (\<lambda>w3 _.
         and_then (w3, generate_popup_features (llm_popup e) (url state)
                         (or_empty (popup_elements state))) (\<lambda>w4 popup_features_content.
         let popup_filename = ''popup_tests_'' @ now_popup e @ ''.feature'';
             saved = save_feature_file e popup_features_content popup_filename w4;
             popup_filepath = snd saved;
             w5 = on_db (save_feature k ''popup'' popup_features_content popup_filepath) (fst saved);
             w6 = on_db (add_log k ''INFO'' (''Generated popup features: '' @ popup_filename) None) w5
         in (w6, Inr (no_update\<lparr>u_popup_features :=
                                   Some \<lparr>fi_content = popup_features_content,
                                         fi_file = popup_filename, fi_path = popup_filepath\<rparr>,
                                u_progress := Some 95,
                                u_current_step := Some ''Popup features generated'',
                                u_logs := [''Generated popup features: '' @ popup_filename]\<rparr>))))))"

definition generate_popup_features_node ::
  "env \<Rightarrow> workflow_state \<Rightarrow> world \<Rightarrow> world \<times> update result" where
  "generate_popup_features_node e state w =
     (let body = generate_popup_features_try e state w in
      case snd body of
        Inr u \<Rightarrow> (fst body, Inr u)
      | Inl err \<Rightarrow>
          (let error_msg = ''Popup feature generation failed: '' @ err
           in (on_db (add_log (state_task_id state) ''ERROR'' error_msg None) (fst body),
               Inr (failed_update error_msg))))"

definition complete_task_node :: "env \<Rightarrow> workflow_state \<Rightarrow> world \<Rightarrow> world \<times> update result" where
  "complete_task_node e state w =
     (let k = state_task_id state;
          w1 = on_db (update_task_status k ''completed'' (Some 100)
                        (Some ''Test generation completed'') None) w;
          w2 = on_db (add_log k ''INFO'' ''Test generation completed successfully'' None) w1;
          body = and_then
                   (send_ws_update e
                      \<lparr>msg_type = ''complete'', msg_task_id = k, msg_status = ''completed'',
                       msg_progress = Some 100,
                       msg_current_step = Some ''Test generation completed'', msg_error = None\<rparr> w2)
                   (\<lambda>w3 _.
                      (w3, Inr (no_update\<lparr>u_status := Some ''completed'', u_progress := Some 100,
                                  u_current_step := Some ''Test generation completed'',
                                  u_result :=
                                    Some \<lparr>rr_task_id = k, rr_status = ''completed'',
                                          rr_url = url state,
                                          rr_hover = hover_features state,
                                          rr_popup = popup_features state,
                                          rr_hover_elements = hover_elements state,
                                          rr_popup_elements = popup_elements state,
                                          rr_page_structure = page_structure state\<rparr>,
                                  u_logs := [''Task '' @ string_of_nat k
                                             @ '' completed successfully'']\<rparr>)))
      in case snd body of
           Inr u \<Rightarrow> (fst body, Inr u)
         | Inl err \<Rightarrow> (fst body, Inr (failed_update (''Task completion failed: '' @ err))))"

text \<open>
  \<open>handle_error_node\<close> has no \<open>try\<close>. \<open>state.get("error_message", "Unknown error")\<close> is
  \<open>None\<close> when no node stored a message (the key is in the state from the start); the
  store then refuses the log row, whose message column is \<open>NOT NULL\<close>.
\<close>

definition handle_error_node :: "env \<Rightarrow> workflow_state \<Rightarrow> world \<Rightarrow> world \<times> update result" where
  "handle_error_node e state w =
     (let k = state_task_id state in
      case error_message state of
        None \<Rightarrow>
          (if k \<noteq> 0
           then (on_db (update_task_status k ''failed'' None None None) w,
                 Inl ''NOT NULL constraint failed: execution_logs.message'')
           else (w, Inr (no_update\<lparr>u_status := Some ''failed'',
                                  u_logs := [''Error handled: None'']\<rparr>)))
      | Some msg \<Rightarrow>
          (let upd = no_update\<lparr>u_status := Some ''failed'', u_logs := [''Error handled: '' @ msg]\<rparr>
           in if k \<noteq> 0
              then
                and_then
                  (send_ws_update e
                     \<lparr>msg_type = ''error'', msg_task_id = k, msg_status = ''failed'',
                      msg_progress = None, msg_current_step = None, msg_error = Some msg\<rparr>
                     (on_db (add_log k ''ERROR'' msg None)
                        (on_db (update_task_status k ''failed'' None None (Some msg)) w)))
                  (\<lambda>w1 _. (w1, Inr upd))
              else (w, Inr upd)))"

subsection \<open>The graph\<close>

datatype graph_node =
  CreateTask | BrowserAnalysis | GenerateHoverFeatures | GeneratePopupFeatures
  | CompleteTask | HandleError | END

definition run_node ::
  "env \<Rightarrow> graph_node \<Rightarrow> workflow_state \<Rightarrow> world \<Rightarrow> world \<times> update result" where
  "run_node e n state w =
     (case n of
        CreateTask \<Rightarrow> create_task_node e state w
      | BrowserAnalysis \<Rightarrow> browser_analysis_subgraph e state w
      | GenerateHoverFeatures \<Rightarrow> generate_hover_features_node e state w
      | GeneratePopupFeatures \<Rightarrow> generate_popup_features_node e state w
      | CompleteTask \<Rightarrow> complete_task_node e state w
      | HandleError \<Rightarrow> handle_error_node e state w
      | END \<Rightarrow> (w, Inr no_update))"

text \<open>The routers, each already followed by the mapping \<open>build_workflow\<close> gives it.\<close>

definition after_create_task :: "workflow_state \<Rightarrow> graph_node" where
  "after_create_task state = (if status state = ''failed'' then HandleError else BrowserAnalysis)"

definition after_browser_analysis :: "workflow_state \<Rightarrow> graph_node" where
  "after_browser_analysis state =
     (if status state = ''failed'' then HandleError else GenerateHoverFeatures)"

definition after_feature_generation :: "workflow_state \<Rightarrow> graph_node" where
  "after_feature_generation state =
     (if status state = ''failed'' then HandleError else CompleteTask)"

text \<open>The edges of \<open>build_workflow\<close>; the edge out of \<open>generate_hover_features\<close> is a plain
  \<open>add_edge\<close>.\<close>

definition next_node :: "graph_node \<Rightarrow> workflow_state \<Rightarrow> graph_node" where
  "next_node n state =
     (case n of
        CreateTask \<Rightarrow> after_create_task state
      | BrowserAnalysis \<Rightarrow> after_browser_analysis state
      | GenerateHoverFeatures \<Rightarrow> GeneratePopupFeatures
      | GeneratePopupFeatures \<Rightarrow> after_feature_generation state
      | CompleteTask \<Rightarrow> END
      | HandleError \<Rightarrow> END
      | END \<Rightarrow> END)"

definition node_rank :: "graph_node \<Rightarrow> nat" where
  "node_rank n =
     (case n of
        CreateTask \<Rightarrow> 6 | BrowserAnalysis \<Rightarrow> 5 | GenerateHoverFeatures \<Rightarrow> 4
      | GeneratePopupFeatures \<Rightarrow> 3 | CompleteTask \<Rightarrow> 2 | HandleError \<Rightarrow> 1 | END \<Rightarrow> 0)"

text \<open>
  The run of the compiled graph from a node: the world and the merged state at the end,
  the stream of (node, update) events, and \<open>Inl\<close> when a node raised.
\<close>

record run_trace =
  tr_world :: world
  tr_state :: workflow_state
  tr_events :: "(graph_node \<times> update) list"
  tr_outcome :: "unit result"

function run_graph ::
  "env \<Rightarrow> graph_node \<Rightarrow> workflow_state \<Rightarrow> world \<Rightarrow> (graph_node \<times> update) list \<Rightarrow> run_trace" where
  "run_graph e n state w events =
     (if n = END
      then \<lparr>tr_world = w, tr_state = state, tr_events = events, tr_outcome = Inr ()\<rparr>
      else
        (case snd (run_node e n state w) of
           Inl err \<Rightarrow>
             \<lparr>tr_world = fst (run_node e n state w), tr_state = state, tr_events = events,
              tr_outcome = Inl err\<rparr>
         | Inr u \<Rightarrow>
             run_graph e (next_node n (merge_update state u)) (merge_update state u)
               (fst (run_node e n state w)) (events @ [(n, u)])))"
  by pat_completeness auto
termination
  by (relation "measure (\<lambda>(e, n, state, w, events). node_rank n)")
     (auto simp: next_node_def node_rank_def after_create_task_def after_browser_analysis_def
                 after_feature_generation_def split: graph_node.splits)

declare run_graph.simps [simp del]

subsection \<open>\<open>TestGeneratorOrchestrator.generate_tests\<close>\<close>

definition initial_state :: "string \<Rightarrow> workflow_state" where
  "initial_state target =
     \<lparr>url = target, task_id = None, status = ''pending'', progress = 0,
      current_step = ''Initializing'', error_message = None, browser_initialized = False,
      page_structure = None, hover_elements = None, popup_elements = None,
      hover_features = None, popup_features = None, result = None, logs = []\<rparr>"

text \<open>The loop over the streamed events keeps the last update as \<open>final_state\<close> and the
  last truthy \<open>task_id\<close> as \<open>self.task_id\<close>.\<close>

definition last_task_id :: "nat option \<Rightarrow> (graph_node \<times> update) list \<Rightarrow> nat option" where
  "last_task_id self_task_id events =
     foldl (\<lambda>t ev. case u_task_id (snd ev) of
                      Some k \<Rightarrow> (if k \<noteq> 0 then Some k else t)
                    | None \<Rightarrow> t)
           self_task_id events"

definition stream_result :: "(graph_node \<times> update) list \<Rightarrow> run_result result" where
  "stream_result events =
     (if events = [] then Inl ''Workflow completed without result''
      else
        (let final_state = snd (last events) in
         case u_result final_state of
           Some r \<Rightarrow> Inr r
         | None \<Rightarrow>
             (if u_status final_state = Some ''failed''
              then Inl (case u_error_message final_state of
                          Some m \<Rightarrow> m | None \<Rightarrow> ''Unknown error'')
              else Inl ''Workflow completed without result'')))"

text \<open>
  \<open>generate_tests\<close>, with \<open>self.task_id\<close> as it was set before the call. \<open>Inl\<close> is the
  exception it re-raises after recording the failure.
\<close>

definition generate_tests ::
  "env \<Rightarrow> nat option \<Rightarrow> string \<Rightarrow> world \<Rightarrow> world \<times> run_result result" where
  "generate_tests e self_task_id target w =
     (let trace = run_graph e CreateTask (initial_state target) w [];
          w1 = tr_world trace;
          known_task_id = last_task_id self_task_id (tr_events trace);
          body = (case tr_outcome trace of
                    Inl err \<Rightarrow> Inl err
                  | Inr _ \<Rightarrow> stream_result (tr_events trace))
      in case body of
           Inr r \<Rightarrow> (w1, Inr r)
         | Inl err \<Rightarrow>
             (let error_msg = ''Error in test generation: '' @ err in
              case known_task_id of
                None \<Rightarrow> (w1, Inl err)
              | Some k \<Rightarrow>
                  (if k = 0 then (w1, Inl err)
                   else
                     and_then
                       (send_ws_update e
                          \<lparr>msg_type = ''error'', msg_task_id = k, msg_status = ''failed'',
                           msg_progress = None, msg_current_step = None,
                           msg_error = Some error_msg\<rparr>
                          (on_db (add_log k ''ERROR'' error_msg None)
                             (on_db (update_task_status k ''failed'' None None (Some error_msg))
                                w1)))
                       (\<lambda>w2 _. (w2, Inl err)))))"

section \<open>An example page\<close>

text \<open>
  A page with a navigation link \<open>Store\<close> (the second \<open>a\<close> below \<open>nav\<close>) that reveals a
  link \<open>Shop the Latest\<close> when hovered and opens a \<open>role="dialog"\<close> node when clicked.
  The theorems below are instantiated on it.
\<close>

definition example_document :: dom_node where
  "example_document = DomNode 9 ''#document'' [] [] None"

definition example_html :: dom_node where
  "example_html = DomNode 1 ''HTML'' [] [] (Some example_document)"

definition example_body :: dom_node where
  "example_body = DomNode 1 ''BODY'' [] [(3, ''#text''), (1, ''HEAD'')] (Some example_html)"

definition example_nav :: dom_node where
  "example_nav = DomNode 1 ''NAV'' [] [(3, ''#text'')] (Some example_body)"

definition example_store_node :: dom_node where
  "example_store_node =
     DomNode 1 ''A'' [] [(3, ''#text''), (1, ''A''), (3, ''#text''), (1, ''SPAN'')] (Some example_nav)"

definition example_style :: computed_style where
  "example_style =
     \<lparr>display = ''block'', visibility = ''visible'', opacity = ''1'', cursor = ''pointer'',
      position = ''static''\<rparr>"

definition example_store :: dom_element where
  "example_store =
     \<lparr>el_node = example_store_node, el_rect = (80, 20), el_style = example_style,
      el_attrs = [(''href'', ''/store''), (''data-toggle'', ''menu'')],
      el_innerText = Some '' Store '', el_textContent = Some '' Store '', el_hover_rule = True,
      el_parents = [], el_has_close = False\<rparr>"

definition example_before :: page_state where
  "example_before =
     \<lparr>visible_elements =
        [\<lparr>ve_text = Some ''Store'', ve_tag = ''A'', ve_href = Some ''/store'', ve_visible = True\<rparr>],
      html_length = 1200\<rparr>"

definition example_after :: page_state where
  "example_after =
     \<lparr>visible_elements =
        [\<lparr>ve_text = Some ''Store'', ve_tag = ''A'', ve_href = Some ''/store'', ve_visible = True\<rparr>,
         \<lparr>ve_text = Some ''Shop the Latest'', ve_tag = ''A'', ve_href = Some ''/latest'',
          ve_visible = True\<rparr>],
      html_length = 1200\<rparr>"

definition example_hover_probe :: hover_probe where
  "example_hover_probe =
     \<lparr>hp_query_selector = Inr True, hp_state_before = Inr example_before, hp_hover = Inr (),
      hp_state_after = Inr example_after, hp_mouse_move = Inr ()\<rparr>"


definition example_candidate :: hover_candidate where
  "example_candidate =
     \<lparr>hc_tag = ''a'', hc_text = ''Store'', hc_xpath = ''/html/body/nav/a[2]'', hc_class = [],
      hc_id = None, hc_role = None, hc_ariaLabel = None\<rparr>"

definition example_hover_page :: hover_page where
  "example_hover_page =
     \<lparr>hov_evaluate = Inr [example_store, example_store], hov_probes = (\<lambda>i. example_hover_probe)\<rparr>"

definition example_dialog :: dom_element where
  "example_dialog =
     \<lparr>el_node = DomNode 1 ''DIV'' ''signup'' [] (Some example_body), el_rect = (400, 300),
      el_style = example_style, el_attrs = [(''id'', ''signup''), (''role'', ''dialog'')],
      el_innerText = Some ''Sign up now'', el_textContent = Some ''Sign up now'',
      el_hover_rule = False, el_parents = [], el_has_close = True\<rparr>"

definition example_trigger :: popup_candidate where
  "example_trigger =
     \<lparr>pc_tag = ''a'', pc_text = ''Store'', pc_xpath = ''/html/body/nav/a[2]'', pc_class = [],
      pc_id = None, pc_onclick = None, pc_dataAttrs = [(''data-toggle'', ''menu'')],
      pc_ariaHaspopup = None\<rparr>"

definition example_close_probe :: close_probe where
  "example_close_probe =
     \<lparr>cl_escape = Inr (), cl_query = (\<lambda>selector. Inr True), cl_click = (\<lambda>selector. Inr ())\<rparr>"

definition example_popup_probe :: popup_probe where
  "example_popup_probe =
     \<lparr>pp_query_selector = Inr True,
      pp_modals_before = Inr (\<lambda>selector. []),
      pp_click = Inr (),
      pp_modals_after = Inr (\<lambda>selector. if selector = hd count_selectors then [example_dialog] else []),
      pp_details = Inr (\<lambda>selector. if selector = hd count_selectors then [example_dialog] else []),
      pp_close = example_close_probe\<rparr>"

definition example_popup_page :: popup_page where
  "example_popup_page =
     \<lparr>pop_query_selector_all = Inr (), pop_evaluate = Inr [example_store, example_store],
      pop_probes = (\<lambda>i. example_popup_probe)\<rparr>"

definition example_world :: world where
  "example_world =
     \<lparr>db = \<lparr>test_tasks = [], dom_analysis = [], generated_features = [], execution_logs = []\<rparr>,
      ws_sent = [], ws_delivered = [], debug_log = [], files = []\<rparr>"

text \<open>A run on the example page in which the third progress message is not delivered
  and the language model returns a one-scenario feature.\<close>

definition example_env :: env where
  "example_env =
     \<lparr>websocket_manager = Some (\<lambda>n. if n = 2 then Inl ''client disconnected'' else Inr ()),
      browser_initialize = Inr (),
      page_goto = Inr (),
      page_content = Inr (Structure ''Store'' ''https://example.com'' 1 0 2 0 True),
      hover_pass = example_hover_page,
      popup_pass = example_popup_page,
      create_provider = Inr (),
      llm_hover = Inr (''Feature: Validate navigation menu functionality'' @ nl
                       @ ''Scenario: Verify Store navigation menu dropdown appears on hover''),
      llm_popup = Inr (''Feature: Validate pop-up functionality'' @ nl
                       @ ''Scenario: Verify the cancel button in the pop-up''),
      now_hover = ''20240101_120000'',
      now_popup = ''20240101_120001'',
      OUTPUTS_DIR = ''outputs''\<rparr>"

text \<open>A run state at the popup generation step, with one confirmed popup trigger, and a
  world in which the hover feature has already been saved.\<close>

definition example_state :: workflow_state where
  "example_state =
     (initial_state ''https://example.com'')
       \<lparr>task_id := Some 1, status := ''running'',
        popup_elements := Some [\<lparr>cpt_info = example_trigger, popup_confirmed = True,
                                 popup_details = []\<rparr>]\<rparr>"

definition example_world_saved :: world where
  "example_world_saved =
     example_world
       \<lparr>db := save_feature 1 ''hover'' ''Feature: Validate navigation menu functionality''
                ''outputs/hover_tests_20240101_120000.feature''
                (snd (create_task ''https://example.com'' (db example_world))),
        files := [(''outputs/hover_tests_20240101_120000.feature'',
                   ''Feature: Validate navigation menu functionality'')]\<rparr>"

section \<open>Pages on which the modal count and the modal nodes differ\<close>

text \<open>
  The count in the words of the specification, ``the count of visible modal-like
  nodes'': every visible node matched by at least one selector of \<open>_count_modals\<close>,
  once. (Nodes are told apart by their records, which hold their place in the tree.)
\<close>

definition visible_modal_node_count :: "(string \<Rightarrow> dom_element list) \<Rightarrow> nat" where
  "visible_modal_node_count querySelectorAll =
     length (remdups (filter (modal_shown 0) (concat (map querySelectorAll count_selectors))))"

text \<open>
  What \<open>document.querySelectorAll\<close> returns for the selectors of \<open>_count_modals\<close> on a
  page with the given elements: \<open>[role="dialog"]\<close> matches that attribute value,
  \<open>.modal\<close> and \<open>.popup\<close> match a class token, \<open>[class*="..."]\<close> matches a substring of
  the class attribute.
\<close>

fun tokens :: "string \<Rightarrow> string list" where
  "tokens [] = [[]]"
| "tokens (c # cs) =
     (if is_space c then [] # tokens cs
      else (case tokens cs of
              [] \<Rightarrow> [[c]]
            | t # ts \<Rightarrow> (c # t) # ts))"

definition class_tokens :: "dom_element \<Rightarrow> string list" where
  "class_tokens el = filter (\<lambda>t. t \<noteq> []) (tokens (className el))"

definition selector_matches :: "string \<Rightarrow> dom_element \<Rightarrow> bool" where
  "selector_matches selector el =
     (if selector = ''[role='' @ dq @ ''dialog'' @ dq @ '']''
      then getAttribute el ''role'' = Some ''dialog''
      else if selector = ''.modal'' then ''modal'' \<in> set (class_tokens el)
      else if selector = ''.popup'' then ''popup'' \<in> set (class_tokens el)
      else if selector = ''[class*='' @ dq @ ''modal'' @ dq @ '']''
      then str_includes (className el) ''modal''
      else if selector = ''[class*='' @ dq @ ''popup'' @ dq @ '']''
      then str_includes (className el) ''popup''
      else if selector = ''[class*='' @ dq @ ''dialog'' @ dq @ '']''
      then str_includes (className el) ''dialog''
      else if selector = ''[class*='' @ dq @ ''overlay'' @ dq @ '']''
      then str_includes (className el) ''overlay''
      else False)"

definition page_query :: "dom_element list \<Rightarrow> string \<Rightarrow> dom_element list" where
  "page_query elements selector = filter (selector_matches selector) elements"

text \<open>A visible \<open>div\<close>, the \<open>k\<close>-th \<open>div\<close> child of \<open>body\<close>, with the given attributes
  and box.\<close>

definition example_div :: "nat \<Rightarrow> (string \<times> string) list \<Rightarrow> rat \<times> rat \<Rightarrow> dom_element" where
  "example_div k attrs box =
     \<lparr>el_node = DomNode 1 ''DIV'' [] (replicate k (1, ''DIV'')) (Some example_body),
      el_rect = box, el_style = example_style\<lparr>cursor := ''auto''\<rparr>, el_attrs = attrs,
      el_innerText = Some [], el_textContent = Some [], el_hover_rule = False,
      el_parents = [], el_has_close = False\<rparr>"

text \<open>
  First page. Before the click a cookie banner \<open>div.popup-overlay\<close> is visible. The
  click closes it and opens a dialog \<open>div[role="dialog"]\<close> of 300 by 80 pixels on a
  full-screen \<open>div.overlay\<close>.
\<close>

definition dialog_page_before :: "dom_element list" where
  "dialog_page_before = [example_div 0 [(''class'', ''popup-overlay'')] (1920, 120)]"

definition dialog_page_after :: "dom_element list" where
  "dialog_page_after =
     [example_div 1 [(''class'', ''menu''), (''role'', ''dialog'')] (300, 80),
      example_div 2 [(''class'', ''overlay'')] (1920, 1080)]"

definition dialog_probe :: popup_probe where
  "dialog_probe =
     \<lparr>pp_query_selector = Inr True,
      pp_modals_before = Inr (page_query dialog_page_before),
      pp_click = Inr (),
      pp_modals_after = Inr (page_query dialog_page_after),
      pp_details = Inr (page_query dialog_page_after),
      pp_close = example_close_probe\<rparr>"

text \<open>
  Second page. A side strip \<open>div.sidebar-overlay\<close> of 60 by 600 pixels is visible before
  and after the click; the click only adds the class \<open>dialog-open\<close> to it.
\<close>

definition strip_page_before :: "dom_element list" where
  "strip_page_before = [example_div 0 [(''class'', ''sidebar-overlay'')] (60, 600)]"

definition strip_page_after :: "dom_element list" where
  "strip_page_after = [example_div 0 [(''class'', ''sidebar-overlay dialog-open'')] (60, 600)]"

definition strip_probe :: popup_probe where
  "strip_probe =
     \<lparr>pp_query_selector = Inr True,
      pp_modals_before = Inr (page_query strip_page_before),
      pp_click = Inr (),
      pp_modals_after = Inr (page_query strip_page_after),
      pp_details = Inr (page_query strip_page_after),
      pp_close = example_close_probe\<rparr>"

section \<open>Verification\<close>

subsection \<open>Hover confirmation\<close>

lemma has_content_changed_iff:
  "has_content_changed before_snapshot after_snapshot \<longleftrightarrow>
     (length (visible_elements after_snapshot) > length (visible_elements before_snapshot)
      \<or> html_length after_snapshot \<noteq> html_length before_snapshot)"
  by (simp add: has_content_changed_def Let_def)

text \<open>
  Claim C1. Take a candidate whose element was found again and hovered without an
  exception, so that both snapshots were taken. \<open>_has_content_changed\<close> reports a change
  exactly when the snapshot after the hover has more visible interactive elements than
  the one before, or a different markup length; and the candidate is appended to the
  confirmed elements exactly in that case. With the same count and the same length no
  change is reported and the list stays as it was.
\<close>

theorem hover_confirmed_iff_content_changed:
  "hp_query_selector probe = Inr True \<Longrightarrow> hp_hover probe = Inr () \<Longrightarrow>
   before_snapshot = capture_page_state (hp_state_before probe) \<Longrightarrow>
   after_snapshot = capture_page_state (hp_state_after probe) \<Longrightarrow>
   (has_content_changed before_snapshot after_snapshot \<longleftrightarrow>
      (length (visible_elements after_snapshot) > length (visible_elements before_snapshot)
       \<or> html_length after_snapshot \<noteq> html_length before_snapshot))
   \<and> fst (hover_try_body elem_info probe confirmed) =
       (if length (visible_elements after_snapshot) > length (visible_elements before_snapshot)
           \<or> html_length after_snapshot \<noteq> html_length before_snapshot
        then confirmed @ [\<lparr>che_info = elem_info, hover_confirmed = True,
                            revealed_elements =
                              get_revealed_elements before_snapshot after_snapshot\<rparr>]
        else confirmed)"
  by (auto simp: hover_try_body_def has_content_changed_iff Let_def split: sum.splits)

theorem hover_confirmed_iff_content_changed_witness:
  "hp_query_selector example_hover_probe = Inr True
   \<and> hp_hover example_hover_probe = Inr ()
   \<and> has_content_changed example_before example_after
   \<and> fst (hover_try_body example_candidate example_hover_probe []) =
       [\<lparr>che_info = example_candidate, hover_confirmed = True,
         revealed_elements =
           [\<lparr>ve_text = Some ''Shop the Latest'', ve_tag = ''A'', ve_href = Some ''/latest'',
             ve_visible = True\<rparr>]\<rparr>]"
  using hover_confirmed_iff_content_changed
          [of example_hover_probe example_before example_after example_candidate "[]"]
  by (simp add: example_hover_probe_def example_before_def example_after_def
      capture_page_state_def get_revealed_elements_def)

text \<open>
  Claim C2. For every pair of snapshots, the list \<open>_get_revealed_elements\<close> computes has
  at most 5 entries, and no entry has a text that is among the texts of the visible
  elements of the snapshot taken before the hover.
\<close>

theorem revealed_elements_bounded_and_new:
  "length (get_revealed_elements before_snapshot after_snapshot) \<le> 5
   \<and> (\<forall>r \<in> set (get_revealed_elements before_snapshot after_snapshot).
         ve_text r \<notin> set (map ve_text (visible_elements before_snapshot)))"
  by (auto simp: get_revealed_elements_def Let_def dest: in_set_takeD)

theorem revealed_elements_bounded_and_new_witness:
  "get_revealed_elements example_before example_after =
     [\<lparr>ve_text = Some ''Shop the Latest'', ve_tag = ''A'', ve_href = Some ''/latest'',
       ve_visible = True\<rparr>]
   \<and> length (get_revealed_elements example_before example_after) \<le> 5
   \<and> Some ''Shop the Latest'' \<notin> set (map ve_text (visible_elements example_before))"
  using revealed_elements_bounded_and_new [of example_before example_after]
  by (simp add: example_before_def example_after_def get_revealed_elements_def)

subsection \<open>Popup confirmation\<close>

lemma close_any_modal_returns: "\<exists>clicked. close_any_modal probe = Inr clicked"
  by (simp add: close_any_modal_def split: sum.splits)

text \<open>
  What the loop body does with a popup candidate whose element was found again and
  clicked without an exception: it appends the candidate exactly when the count of
  \<open>_count_modals\<close> after the click is greater than the count before it, or
  \<open>_get_modal_details\<close> returned a non-empty list; otherwise the list stays as it was.
\<close>

lemma popup_confirmed_iff_modal_observed:
  "pp_query_selector probe = Inr True \<Longrightarrow> pp_click probe = Inr () \<Longrightarrow>
   before_modals = count_modals (pp_modals_before probe) \<Longrightarrow>
   after_modals = count_modals (pp_modals_after probe) \<Longrightarrow>
   modal_details = get_modal_details (pp_details probe) \<Longrightarrow>
   fst (popup_try_body trigger_info probe confirmed) =
     (if after_modals > before_modals \<or> modal_details \<noteq> []
      then confirmed @ [\<lparr>cpt_info = trigger_info, popup_confirmed = True,
                          popup_details = modal_details\<rparr>]
      else confirmed)"
  using close_any_modal_returns [of "pp_close probe"]
  by (auto simp: popup_try_body_def Let_def split: sum.splits)

lemma popup_confirmed_iff_modal_observed_example:
  "pp_query_selector example_popup_probe = Inr True
   \<and> pp_click example_popup_probe = Inr ()
   \<and> count_modals (pp_modals_before example_popup_probe) = 0
   \<and> count_modals (pp_modals_after example_popup_probe) = 1
   \<and> length (fst (popup_try_body example_trigger example_popup_probe [])) = 1"
  using popup_confirmed_iff_modal_observed [of example_popup_probe "0" "1"
      "get_modal_details (pp_details example_popup_probe)" example_trigger "[]"]
  by (simp add: example_popup_probe_def count_modals_def count_modals_script_def
      count_selectors_def dq_def modal_shown_def example_dialog_def example_style_def)

text \<open>
  Claim C3 does not hold of the code. The claim compares the number of visible
  modal-like nodes before and after the click; \<open>_count_modals\<close>, whose docstring reads
  ``Count visible modals/dialogs'', adds one for every selector that a visible node
  matches. Both candidates below were found again and clicked without an exception, and
  no modal description was captured for either. On the first page the click opens a
  dialog on an overlay: one visible modal-like node before, two after, but the count is
  2 before and 2 after, and the candidate is not confirmed. On the second page no node
  appears: one visible modal-like node before and after, but the count goes from 1 to 2,
  and the candidate is confirmed.
\<close>

theorem popup_confirmation_counts_selector_matches:
  "pp_query_selector dialog_probe = Inr True
   \<and> pp_click dialog_probe = Inr ()
   \<and> visible_modal_node_count (page_query dialog_page_before) = 1
   \<and> visible_modal_node_count (page_query dialog_page_after) = 2
   \<and> count_modals (pp_modals_before dialog_probe) = 2
   \<and> count_modals (pp_modals_after dialog_probe) = 2
   \<and> get_modal_details (pp_details dialog_probe) = []
   \<and> fst (popup_try_body example_trigger dialog_probe []) = []
   \<and> pp_query_selector strip_probe = Inr True
   \<and> pp_click strip_probe = Inr ()
   \<and> visible_modal_node_count (page_query strip_page_before) = 1
   \<and> visible_modal_node_count (page_query strip_page_after) = 1
   \<and> count_modals (pp_modals_before strip_probe) = 1
   \<and> count_modals (pp_modals_after strip_probe) = 2
   \<and> get_modal_details (pp_details strip_probe) = []
   \<and> fst (popup_try_body example_trigger strip_probe []) =
       [\<lparr>cpt_info = example_trigger, popup_confirmed = True, popup_details = []\<rparr>]"
proof -
  have a1: "visible_modal_node_count (page_query dialog_page_before) = 1" by code_simp
  have a2: "visible_modal_node_count (page_query dialog_page_after) = 2" by code_simp
  have a3: "count_modals (pp_modals_before dialog_probe) = 2" by code_simp
  have a4: "count_modals (pp_modals_after dialog_probe) = 2" by code_simp
  have a5: "get_modal_details (pp_details dialog_probe) = []" by code_simp
  have a6: "fst (popup_try_body example_trigger dialog_probe []) = []" by code_simp
  have b1: "visible_modal_node_count (page_query strip_page_before) = 1" by code_simp
  have b2: "visible_modal_node_count (page_query strip_page_after) = 1" by code_simp
  have b3: "count_modals (pp_modals_before strip_probe) = 1" by code_simp
  have b4: "count_modals (pp_modals_after strip_probe) = 2" by code_simp
  have b5: "get_modal_details (pp_details strip_probe) = []" by code_simp
  have b6: "fst (popup_try_body example_trigger strip_probe []) =
       [\<lparr>cpt_info = example_trigger, popup_confirmed = True, popup_details = []\<rparr>]"
    by code_simp
  have p: "pp_query_selector dialog_probe = Inr True" "pp_click dialog_probe = Inr ()"
    "pp_query_selector strip_probe = Inr True" "pp_click strip_probe = Inr ()"
    by (simp_all add: dialog_probe_def strip_probe_def)
  from a1 a2 a3 a4 a5 a6 b1 b2 b3 b4 b5 b6 p show ?thesis by simp
qed

subsection \<open>The static scans\<close>

lemma hover_scan_inv:
  "map hc_xpath (fst st) = snd st \<Longrightarrow> distinct (snd st) \<Longrightarrow>
   map hc_xpath (fst (hover_scan_element st el)) = snd (hover_scan_element st el)
   \<and> distinct (snd (hover_scan_element st el))"
  by (simp add: hover_scan_element_def Let_def)

lemma hover_scan_foldl_inv:
  "map hc_xpath (fst st) = snd st \<Longrightarrow> distinct (snd st) \<Longrightarrow>
   map hc_xpath (fst (foldl hover_scan_element st els)) = snd (foldl hover_scan_element st els)
   \<and> distinct (snd (foldl hover_scan_element st els))"
proof (induction els arbitrary: st)
  case Nil
  then show ?case by simp
next
  case (Cons el els)
  from hover_scan_inv [OF Cons.prems] Cons.IH [of "hover_scan_element st el"]
  show ?case by simp
qed

lemma popup_scan_inv:
  "map pc_xpath (fst st) = snd st \<Longrightarrow> distinct (snd st) \<Longrightarrow>
   map pc_xpath (fst (popup_scan_element st el)) = snd (popup_scan_element st el)
   \<and> distinct (snd (popup_scan_element st el))"
  by (simp add: popup_scan_element_def Let_def)

lemma popup_scan_foldl_inv:
  "map pc_xpath (fst st) = snd st \<Longrightarrow> distinct (snd st) \<Longrightarrow>
   map pc_xpath (fst (foldl popup_scan_element st els)) = snd (foldl popup_scan_element st els)
   \<and> distinct (snd (foldl popup_scan_element st els))"
proof (induction els arbitrary: st)
  case Nil
  then show ?case by simp
next
  case (Cons el els)
  from popup_scan_inv [OF Cons.prems] Cons.IH [of "popup_scan_element st el"]
  show ?case by simp
qed

text \<open>
  Claim C4. Whatever elements the page has, the hover scan returns at most 50
  candidates and the popup scan at most 30, and within each list the locators are
  pairwise different.
\<close>

theorem static_scan_capped_and_distinct:
  "length (dynamic_hover_detection allElements) \<le> 50
   \<and> distinct (map hc_xpath (dynamic_hover_detection allElements))
   \<and> length (dynamic_popup_detection clickables) \<le> 30
   \<and> distinct (map pc_xpath (dynamic_popup_detection clickables))"
proof -
  have h: "distinct (map hc_xpath (fst (foldl hover_scan_element ([], []) allElements)))"
    using hover_scan_foldl_inv [of "([], [])" allElements] by simp
  have p: "distinct (map pc_xpath (fst (foldl popup_scan_element ([], []) clickables)))"
    using popup_scan_foldl_inv [of "([], [])" clickables] by simp
  show ?thesis
    using h p by (simp add: dynamic_hover_detection_def dynamic_popup_detection_def
        take_map [symmetric])
qed

theorem static_scan_capped_and_distinct_witness:
  "map hc_xpath (dynamic_hover_detection [example_store, example_store]) = [''/html/body/nav/a[2]'']
   \<and> map pc_xpath (dynamic_popup_detection [example_store, example_store]) = [''/html/body/nav/a[2]'']
   \<and> length (dynamic_hover_detection [example_store, example_store]) \<le> 50
   \<and> distinct (map hc_xpath (dynamic_hover_detection [example_store, example_store]))
   \<and> length (dynamic_popup_detection [example_store, example_store]) \<le> 30
   \<and> distinct (map pc_xpath (dynamic_popup_detection [example_store, example_store]))"
proof -
  have h: "map hc_xpath (dynamic_hover_detection [example_store, example_store])
             = [''/html/body/nav/a[2]'']"
    by code_simp
  have p: "map pc_xpath (dynamic_popup_detection [example_store, example_store])
             = [''/html/body/nav/a[2]'']"
    by code_simp
  show ?thesis
    using h p static_scan_capped_and_distinct
                [of "[example_store, example_store]" "[example_store, example_store]"]
    by simp
qed

subsection \<open>Totality of the two passes\<close>

text \<open>
  Claim C10. \<open>analyze_hover_elements\<close> and \<open>analyze_popup_elements\<close> return a list for
  every page, whatever the calls into the page raise (exceptions of class \<open>Exception\<close>,
  which is what the driver raises): no exception reaches the caller. When the body of
  the outer \<open>try\<close> is left by an exception, the result is the empty list. A
  \<open>page.evaluate\<close> that raises inside \<open>_capture_page_state\<close> gives the empty snapshot.
\<close>

theorem analysis_passes_total:
  "(\<exists>confirmed. analyze_hover_elements hpage = Inr confirmed)
   \<and> (\<exists>confirmed. analyze_popup_elements ppage = Inr confirmed)
   \<and> ((\<exists>err. analyze_hover_try hpage = Inl err) \<longrightarrow> analyze_hover_elements hpage = Inr [])
   \<and> ((\<exists>err. analyze_popup_try ppage = Inl err) \<longrightarrow> analyze_popup_elements ppage = Inr [])
   \<and> capture_page_state (Inl err) = \<lparr>visible_elements = [], html_length = 0\<rparr>"
  by (auto simp: analyze_hover_elements_def analyze_popup_elements_def capture_page_state_def
      split: sum.splits)

theorem analysis_passes_total_witness:
  "analyze_hover_try (example_hover_page\<lparr>hov_evaluate := Inl ''Execution context was destroyed''\<rparr>)
     = Inl ''Execution context was destroyed''
   \<and> analyze_hover_elements
       (example_hover_page\<lparr>hov_evaluate := Inl ''Execution context was destroyed''\<rparr>) = Inr []
   \<and> analyze_popup_try (example_popup_page\<lparr>pop_evaluate := Inl ''Execution context was destroyed''\<rparr>)
     = Inl ''Execution context was destroyed''
   \<and> analyze_popup_elements
       (example_popup_page\<lparr>pop_evaluate := Inl ''Execution context was destroyed''\<rparr>) = Inr []"
  using analysis_passes_total
          [of "example_hover_page\<lparr>hov_evaluate := Inl ''Execution context was destroyed''\<rparr>"
              "example_popup_page\<lparr>pop_evaluate := Inl ''Execution context was destroyed''\<rparr>"]
  by (simp add: analyze_hover_try_def analyze_popup_try_def example_hover_page_def
      example_popup_page_def)

subsection \<open>The element locator\<close>

lemma count_same_siblings_eq:
  "count_same_siblings siblings name index =
     index + length (filter (\<lambda>s. fst s = ELEMENT_NODE \<and> snd s = name) siblings)"
  by (induction siblings arbitrary: index) simp_all

lemma path_step_eq: "path_step name index = toLowerCase name @ ordinal_suffix (Suc index)"
  by (simp add: path_step_def ordinal_suffix_def Let_def)

lemma xpath_parts_eq:
  "xpath_parts current parts =
     map (\<lambda>a. toLowerCase (nodeName a) @ ordinal_suffix (ordinal_among_same_tag a))
         (ancestor_chain current) @ parts"
  by (induction current parts rule: xpath_parts.induct)
     (simp_all add: path_step_eq count_same_siblings_eq ordinal_among_same_tag_def)

lemma digit_char_inj:
  assumes "d < 10" "d' < 10" "digit_char d = digit_char d'"
  shows "d = d'"
proof -
  have "distinct ''0123456789''" by simp
  from nth_eq_iff_index_eq [OF this, of d d'] assms show ?thesis
    by (simp add: digit_char_def)
qed

lemma string_of_nat_not_Nil: "string_of_nat n \<noteq> []"
  by (subst string_of_nat.simps) simp

lemma string_of_nat_inj: "string_of_nat m = string_of_nat n \<Longrightarrow> m = n"
proof (induction m arbitrary: n rule: less_induct)
  case (less m)
  show ?case
  proof (cases "m < 10")
    case m: True
    show ?thesis
    proof (cases "n < 10")
      case True
      with m less.prems digit_char_inj [of m n] show ?thesis
        by (simp add: string_of_nat.simps [of m] string_of_nat.simps [of n])
    next
      case False
      with m less.prems string_of_nat_not_Nil [of "n div 10"] show ?thesis
        by (simp add: string_of_nat.simps [of m] string_of_nat.simps [of n])
    qed
  next
    case m: False
    show ?thesis
    proof (cases "n < 10")
      case True
      with m less.prems string_of_nat_not_Nil [of "m div 10"] show ?thesis
        by (simp add: string_of_nat.simps [of m] string_of_nat.simps [of n])
    next
      case False
      with m less.prems
      have eq: "string_of_nat (m div 10) = string_of_nat (n div 10)"
        and dg: "digit_char (m mod 10) = digit_char (n mod 10)"
        by (simp_all add: string_of_nat.simps [of m] string_of_nat.simps [of n])
      from m have "m div 10 < m" by simp
      from less.IH [OF this eq] have q: "m div 10 = n div 10" .
      from dg digit_char_inj [of "m mod 10" "n mod 10"] have r: "m mod 10 = n mod 10" by simp
      from q r show ?thesis by (metis div_mult_mod_eq)
    qed
  qed
qed

lemma ordinal_suffix_inj:
  "0 < j \<Longrightarrow> 0 < k \<Longrightarrow> ordinal_suffix j = ordinal_suffix k \<Longrightarrow> j = k"
  by (auto simp: ordinal_suffix_def dest: string_of_nat_inj split: if_splits)

text \<open>
  Claim C8. For an element with a non-empty \<open>id\<close>, \<open>getXPath\<close> returns the reference
  \<open>//*[@id="..."]\<close> to that id. For an element without one it returns the structural
  path: \<open>/\<close> followed by one step for each element on the way from the root-most element
  ancestor down to the node itself, steps joined by \<open>/\<close>; a step is the tag name in lower
  case followed by the 1-based ordinal among the siblings of the same tag, written in
  brackets and left out when it is 1, so that the written step still determines the
  ordinal. The function is total (both loops are structural recursions), so it returns a
  locator for every node, and it only reads the node: the same node gives the same
  locator.
\<close>

theorem locator_id_or_structural_path:
  "(node_id element \<noteq> [] \<longrightarrow>
      getXPath element = ''//*[@id='' @ [CHR 0x22] @ node_id element @ [CHR 0x22] @ '']'')
   \<and> (node_id element = [] \<longrightarrow> getXPath element = structural_path element)
   \<and> (\<forall>j k. 0 < j \<longrightarrow> 0 < k \<longrightarrow> ordinal_suffix j = ordinal_suffix k \<longrightarrow> j = k)
   \<and> (\<exists>locator. getXPath element = locator)
   \<and> (\<forall>again. again = element \<longrightarrow> getXPath again = getXPath element)"
proof -
  have 1: "node_id element \<noteq> [] \<longrightarrow>
      getXPath element = ''//*[@id='' @ [CHR 0x22] @ node_id element @ [CHR 0x22] @ '']''"
    by (simp add: getXPath_def)
  have 2: "node_id element = [] \<longrightarrow> getXPath element = structural_path element"
    by (simp add: getXPath_def structural_path_def xpath_parts_eq)
  have 3: "\<forall>j k. 0 < j \<longrightarrow> 0 < k \<longrightarrow> ordinal_suffix j = ordinal_suffix k \<longrightarrow> j = k"
    using ordinal_suffix_inj by blast
  from 1 2 3 show ?thesis by blast
qed

theorem locator_id_or_structural_path_witness:
  "getXPath example_store_node = ''/html/body/nav/a[2]''
   \<and> structural_path example_store_node = ''/html/body/nav/a[2]''
   \<and> map (\<lambda>a. (toLowerCase (nodeName a), ordinal_among_same_tag a))
          (ancestor_chain (Some example_store_node))
      = [(''html'', 1), (''body'', 1), (''nav'', 1), (''a'', 2)]
   \<and> getXPath (DomNode 1 ''DIV'' ''signup'' [] (Some example_body))
      = ''//*[@id='' @ [CHR 0x22] @ ''signup'' @ [CHR 0x22] @ '']''"
proof -
  have a: "getXPath example_store_node = ''/html/body/nav/a[2]''" by code_simp
  have b: "map (\<lambda>a. (toLowerCase (nodeName a), ordinal_among_same_tag a))
          (ancestor_chain (Some example_store_node))
      = [(''html'', 1), (''body'', 1), (''nav'', 1), (''a'', 2)]" by code_simp
  have c: "node_id example_store_node = []" by (simp add: example_store_node_def)
  have d: "node_id (DomNode 1 ''DIV'' ''signup'' [] (Some example_body)) \<noteq> []" by simp
  from c locator_id_or_structural_path [of example_store_node]
  have e: "getXPath example_store_node = structural_path example_store_node" by blast
  from d locator_id_or_structural_path [of "DomNode 1 ''DIV'' ''signup'' [] (Some example_body)"]
  have f: "getXPath (DomNode 1 ''DIV'' ''signup'' [] (Some example_body))
      = ''//*[@id='' @ [CHR 0x22] @ ''signup'' @ [CHR 0x22] @ '']''"
    by (metis dom_node.sel(3))
  from a b e f show ?thesis by simp
qed

subsection \<open>The pipeline: what each step does\<close>

subsubsection \<open>The progress sink\<close>

lemma send_ws_update_ok [simp]: "snd (send_ws_update e m w) = Inr ()"
  by (simp add: send_ws_update_def Let_def split: option.split sum.split)

lemma send_ws_update_db [simp]: "db (fst (send_ws_update e m w)) = db w"
  by (simp add: send_ws_update_def Let_def split: option.split sum.split)

lemma send_ws_update_files [simp]: "files (fst (send_ws_update e m w)) = files w"
  by (simp add: send_ws_update_def Let_def split: option.split sum.split)

lemma send_ws_update_sent [simp]: "ws_sent (fst (send_ws_update e m w)) = ws_sent w @ [m]"
  by (simp add: send_ws_update_def Let_def split: option.split sum.split)

lemma and_then_send [simp]:
  "and_then (send_ws_update e m w) f = f (fst (send_ws_update e m w)) ()"
  by (simp add: and_then_def)

lemma and_then_Inl [simp]: "and_then (w, Inl err) f = (w, Inl err)"
  by (simp add: and_then_def)

lemma and_then_Inr [simp]: "and_then (w, Inr v) f = f w v"
  by (simp add: and_then_def)

lemma analyze_hover_Inr: "analyze_hover_elements p = Inr (projr (analyze_hover_elements p))"
  by (simp add: analyze_hover_elements_def split: sum.split)

lemma analyze_popup_Inr: "analyze_popup_elements p = Inr (projr (analyze_popup_elements p))"
  by (simp add: analyze_popup_elements_def split: sum.split)

lemma and_then_hover [simp]:
  "and_then (w, analyze_hover_elements p) f = f w (projr (analyze_hover_elements p))"
  by (subst analyze_hover_Inr) simp

lemma and_then_popup [simp]:
  "and_then (w, analyze_popup_elements p) f = f w (projr (analyze_popup_elements p))"
  by (subst analyze_popup_Inr) simp

lemma on_db_simps [simp]:
  "db (on_db f w) = f (db w)" "files (on_db f w) = files w" "ws_sent (on_db f w) = ws_sent w"
  by (simp_all add: on_db_def)

subsubsection \<open>The durable store\<close>

lemma get_task_add_log [simp]: "get_task (add_log k level msg count d) j = get_task d j"
  by (simp add: get_task_def add_log_def)

lemma get_task_save_feature [simp]: "get_task (save_feature k kind c p d) j = get_task d j"
  by (simp add: get_task_def save_feature_def)

lemma get_task_save_dom_analysis [simp]: "get_task (save_dom_analysis k h p s d) j = get_task d j"
  by (simp add: get_task_def save_dom_analysis_def)

lemma length_tasks_update [simp]:
  "length (test_tasks (update_task_status k st p c er d)) = length (test_tasks d)"
  by (simp add: update_task_status_def split: option.split)

lemma length_tasks_add_log [simp]:
  "length (test_tasks (add_log k level msg count d)) = length (test_tasks d)"
  by (simp add: add_log_def)

lemma length_tasks_save_feature [simp]:
  "length (test_tasks (save_feature k kind c p d)) = length (test_tasks d)"
  by (simp add: save_feature_def)

lemma length_tasks_save_dom_analysis [simp]:
  "length (test_tasks (save_dom_analysis k h p s d)) = length (test_tasks d)"
  by (simp add: save_dom_analysis_def)

lemma length_tasks_create [simp]:
  "length (test_tasks (snd (create_task u d))) = Suc (length (test_tasks d))"
  "fst (create_task u d) = Suc (length (test_tasks d))"
  by (simp_all add: create_task_def)

lemma dom_analysis_ops [simp]:
  "dom_analysis (update_task_status k st p c er d) = dom_analysis d"
  "dom_analysis (add_log k level msg count d) = dom_analysis d"
  "dom_analysis (save_feature k kind content path d) = dom_analysis d"
  "dom_analysis (snd (create_task u d)) = dom_analysis d"
  by (simp_all add: update_task_status_def add_log_def save_feature_def create_task_def
      split: option.split)

lemma generated_features_ops [simp]:
  "generated_features (update_task_status k st p c er d) = generated_features d"
  "generated_features (add_log k level msg count d) = generated_features d"
  "generated_features (save_dom_analysis k h pp s d) = generated_features d"
  "generated_features (snd (create_task u d)) = generated_features d"
  "generated_features (save_feature k kind content path d) =
     generated_features d @
       [\<lparr>fr_task_id = k, feature_type = kind, feature_content = content, file_path = path\<rparr>]"
  by (simp_all add: update_task_status_def add_log_def save_feature_def create_task_def
      save_dom_analysis_def split: option.split)

lemma get_task_update_failed:
  "0 < k \<Longrightarrow> k \<le> length (test_tasks d) \<Longrightarrow>
   \<exists>row. get_task (update_task_status k st p c (Some m) d) k = Some row
         \<and> row_status row = st \<and> row_error_message row = Some m"
  by (simp add: get_task_def update_task_status_def)

subsubsection \<open>Running the graph\<close>

lemma run_graph_END:
  "run_graph e END state w events =
     \<lparr>tr_world = w, tr_state = state, tr_events = events, tr_outcome = Inr ()\<rparr>"
  by (simp add: run_graph.simps)

lemma run_graph_step:
  "n \<noteq> END \<Longrightarrow> snd (run_node e n state w) = Inr u \<Longrightarrow>
   run_graph e n state w events =
     run_graph e (next_node n (merge_update state u)) (merge_update state u)
       (fst (run_node e n state w)) (events @ [(n, u)])"
  by (subst run_graph.simps) simp

lemma run_graph_raise:
  "n \<noteq> END \<Longrightarrow> snd (run_node e n state w) = Inl err \<Longrightarrow>
   run_graph e n state w events =
     \<lparr>tr_world = fst (run_node e n state w), tr_state = state, tr_events = events,
      tr_outcome = Inl err\<rparr>"
  by (subst run_graph.simps) simp

subsubsection \<open>What each node returns and leaves behind\<close>

lemma create_task_node_snd:
  "snd (create_task_node e state w) =
     Inr (no_update\<lparr>u_task_id := Some (Suc (length (test_tasks (db w)))),
                    u_status := Some ''running'', u_progress := Some 5,
                    u_current_step := Some ''Task created'',
                    u_logs := [''Task '' @ string_of_nat (Suc (length (test_tasks (db w))))
                               @ '' created for '' @ url state]\<rparr>)"
  by (simp add: create_task_node_def Let_def)

lemma create_task_node_world:
  "length (test_tasks (db (fst (create_task_node e state w)))) = Suc (length (test_tasks (db w)))"
  "dom_analysis (db (fst (create_task_node e state w))) = dom_analysis (db w)"
  "generated_features (db (fst (create_task_node e state w))) = generated_features (db w)"
  "files (fst (create_task_node e state w)) = files w"
  "map msg_progress (ws_sent (fst (create_task_node e state w))) =
     map msg_progress (ws_sent w) @ [Some 0]"
  by (simp_all add: create_task_node_def Let_def status_message_def)

lemma browser_analysis_snd_init:
  "browser_initialize e = Inl err \<Longrightarrow>
   snd (browser_analysis_subgraph e state w) =
     Inr (failed_update (''Browser analysis error: '' @ err))"
  by (simp add: browser_analysis_subgraph_def browser_analysis_try_def Let_def)

lemma browser_analysis_snd_goto:
  "browser_initialize e = Inr u \<Longrightarrow> page_goto e = Inl err \<Longrightarrow>
   snd (browser_analysis_subgraph e state w) =
     Inr (failed_update (''Browser analysis error: '' @ ''Failed to load URL: '' @ url state))"
  by (simp add: browser_analysis_subgraph_def browser_analysis_try_def Let_def
      navigate_to_url_def)

lemma browser_analysis_snd_ok:
  "browser_initialize e = Inr u \<Longrightarrow> page_goto e = Inr v \<Longrightarrow>
   \<exists>upd. snd (browser_analysis_subgraph e state w) = Inr upd
        \<and> u_status upd = None \<and> u_task_id upd = None \<and> u_error_message upd = None
        \<and> u_hover_elements upd = Some (projr (analyze_hover_elements (hover_pass e)))
        \<and> u_popup_elements upd = Some (projr (analyze_popup_elements (popup_pass e)))"
  by (simp add: browser_analysis_subgraph_def browser_analysis_try_def Let_def
      navigate_to_url_def no_update_def)

lemma browser_analysis_world:
  "length (test_tasks (db (fst (browser_analysis_subgraph e state w)))) = length (test_tasks (db w))"
  "generated_features (db (fst (browser_analysis_subgraph e state w))) = generated_features (db w)"
  "files (fst (browser_analysis_subgraph e state w)) = files w"
  by (cases "browser_initialize e"; cases "page_goto e";
      simp add: browser_analysis_subgraph_def browser_analysis_try_def Let_def
        navigate_to_url_def)+

lemma browser_analysis_dom_init:
  "browser_initialize e = Inl err \<Longrightarrow>
   dom_analysis (db (fst (browser_analysis_subgraph e state w))) = dom_analysis (db w)"
  by (simp add: browser_analysis_subgraph_def browser_analysis_try_def Let_def)

lemma browser_analysis_dom_goto:
  "browser_initialize e = Inr u \<Longrightarrow> page_goto e = Inl err \<Longrightarrow>
   dom_analysis (db (fst (browser_analysis_subgraph e state w))) = dom_analysis (db w)"
  by (simp add: browser_analysis_subgraph_def browser_analysis_try_def Let_def
      navigate_to_url_def)

lemma browser_analysis_sent_ok:
  "browser_initialize e = Inr u \<Longrightarrow> page_goto e = Inr v \<Longrightarrow>
   map msg_progress (ws_sent (fst (browser_analysis_subgraph e state w))) =
     map msg_progress (ws_sent w) @ [Some 10, Some 20, Some 30, Some 40, Some 60]"
  by (simp add: browser_analysis_subgraph_def browser_analysis_try_def Let_def
      navigate_to_url_def status_message_def)


lemma generate_hover_snd_provider:
  "create_provider e = Inl err \<Longrightarrow>
   snd (generate_hover_features_node e state w) =
     Inr (failed_update (''Hover feature generation failed: '' @ err))
   \<and> generated_features (db (fst (generate_hover_features_node e state w)))
       = generated_features (db w)
   \<and> files (fst (generate_hover_features_node e state w)) = files w"
  by (simp add: generate_hover_features_node_def generate_hover_features_try_def Let_def)

lemma generate_hover_snd_raised:
  "create_provider e = Inr u \<Longrightarrow>
   generate_hover_features (llm_hover e) (url state) (or_empty (hover_elements state)) = Inl err \<Longrightarrow>
   snd (generate_hover_features_node e state w) =
     Inr (failed_update (''Hover feature generation failed: '' @ err))
   \<and> generated_features (db (fst (generate_hover_features_node e state w)))
       = generated_features (db w)
   \<and> files (fst (generate_hover_features_node e state w)) = files w"
  by (simp add: generate_hover_features_node_def generate_hover_features_try_def Let_def)

lemma generate_hover_snd_ok:
  "create_provider e = Inr u \<Longrightarrow>
   generate_hover_features (llm_hover e) (url state) (or_empty (hover_elements state))
     = Inr content \<Longrightarrow>
   (\<exists>upd. snd (generate_hover_features_node e state w) = Inr upd
         \<and> u_status upd = None \<and> u_task_id upd = None \<and> u_error_message upd = None
         \<and> u_popup_elements upd = None)
   \<and> generated_features (db (fst (generate_hover_features_node e state w)))
       = generated_features (db w) @
           [\<lparr>fr_task_id = state_task_id state, feature_type = ''hover'',
             feature_content = content,
             file_path = OUTPUTS_DIR e @ ''/'' @ ''hover_tests_'' @ now_hover e @ ''.feature''\<rparr>]
   \<and> files (fst (generate_hover_features_node e state w))
       = files w @ [(OUTPUTS_DIR e @ ''/'' @ ''hover_tests_'' @ now_hover e @ ''.feature'', content)]
   \<and> map msg_progress (ws_sent (fst (generate_hover_features_node e state w)))
       = map msg_progress (ws_sent w) @ [Some 70]"
  by (simp add: generate_hover_features_node_def generate_hover_features_try_def Let_def
      save_feature_file_def no_update_def status_message_def)

lemma generate_popup_snd_provider:
  "create_provider e = Inl err \<Longrightarrow>
   snd (generate_popup_features_node e state w) =
     Inr (failed_update (''Popup feature generation failed: '' @ err))
   \<and> generated_features (db (fst (generate_popup_features_node e state w)))
       = generated_features (db w)
   \<and> files (fst (generate_popup_features_node e state w)) = files w"
  by (simp add: generate_popup_features_node_def generate_popup_features_try_def Let_def)

lemma generate_popup_snd_raised:
  "create_provider e = Inr u \<Longrightarrow>
   generate_popup_features (llm_popup e) (url state) (or_empty (popup_elements state)) = Inl err \<Longrightarrow>
   snd (generate_popup_features_node e state w) =
     Inr (failed_update (''Popup feature generation failed: '' @ err))
   \<and> generated_features (db (fst (generate_popup_features_node e state w)))
       = generated_features (db w)
   \<and> files (fst (generate_popup_features_node e state w)) = files w"
  by (simp add: generate_popup_features_node_def generate_popup_features_try_def Let_def)

lemma generate_popup_snd_ok:
  "create_provider e = Inr u \<Longrightarrow>
   generate_popup_features (llm_popup e) (url state) (or_empty (popup_elements state))
     = Inr content \<Longrightarrow>
   (\<exists>upd. snd (generate_popup_features_node e state w) = Inr upd
         \<and> u_status upd = None \<and> u_task_id upd = None \<and> u_error_message upd = None)
   \<and> generated_features (db (fst (generate_popup_features_node e state w)))
       = generated_features (db w) @
           [\<lparr>fr_task_id = state_task_id state, feature_type = ''popup'',
             feature_content = content,
             file_path = OUTPUTS_DIR e @ ''/'' @ ''popup_tests_'' @ now_popup e @ ''.feature''\<rparr>]
   \<and> files (fst (generate_popup_features_node e state w))
       = files w @ [(OUTPUTS_DIR e @ ''/'' @ ''popup_tests_'' @ now_popup e @ ''.feature'', content)]
   \<and> map msg_progress (ws_sent (fst (generate_popup_features_node e state w)))
       = map msg_progress (ws_sent w) @ [Some 85]"
  by (simp add: generate_popup_features_node_def generate_popup_features_try_def Let_def
      save_feature_file_def no_update_def status_message_def)

lemma complete_task_node_snd:
  "\<exists>upd. snd (complete_task_node e state w) = Inr upd \<and> u_status upd = Some ''completed''"
  by (simp add: complete_task_node_def Let_def no_update_def)

lemma complete_task_node_world:
  "generated_features (db (fst (complete_task_node e state w))) = generated_features (db w)"
  "files (fst (complete_task_node e state w)) = files w"
  "map msg_progress (ws_sent (fst (complete_task_node e state w))) =
     map msg_progress (ws_sent w) @ [Some 100]"
  by (simp_all add: complete_task_node_def Let_def)

lemma handle_error_node_snd:
  "error_message state = Some m \<Longrightarrow>
   snd (handle_error_node e state w) =
     Inr (no_update\<lparr>u_status := Some ''failed'', u_logs := [''Error handled: '' @ m]\<rparr>)"
  by (simp add: handle_error_node_def Let_def)

lemma handle_error_node_db:
  "error_message state = Some m \<Longrightarrow> state_task_id state \<noteq> 0 \<Longrightarrow>
   db (fst (handle_error_node e state w)) =
     add_log (state_task_id state) ''ERROR'' m None
       (update_task_status (state_task_id state) ''failed'' None None (Some m) (db w))"
  by (simp add: handle_error_node_def Let_def)

lemma handle_error_node_status:
  "snd (handle_error_node e state w) = Inr upd \<Longrightarrow> u_status upd = Some ''failed''"
  by (cases "error_message state")
     (auto simp: handle_error_node_def Let_def no_update_def split: if_splits)

lemma handle_error_node_world:
  "generated_features (db (fst (handle_error_node e state w))) = generated_features (db w)"
  "files (fst (handle_error_node e state w)) = files w"
  by (cases "error_message state"; simp add: handle_error_node_def Let_def)+

subsubsection \<open>Properties of whole runs\<close>

lemma run_node_appends:
  "\<exists>ys fs. generated_features (db (fst (run_node e n state w))) = generated_features (db w) @ ys
          \<and> files (fst (run_node e n state w)) = files w @ fs"
proof (cases n)
  case CreateTask
  then show ?thesis by (simp add: run_node_def create_task_node_world)
next
  case BrowserAnalysis
  then show ?thesis by (simp add: run_node_def browser_analysis_world)
next
  case GenerateHoverFeatures
  show ?thesis
  proof (cases "create_provider e")
    case (Inl err)
    from generate_hover_snd_provider [OF this, of state w] GenerateHoverFeatures
    show ?thesis by (simp add: run_node_def)
  next
    case (Inr u)
    show ?thesis
    proof (cases "generate_hover_features (llm_hover e) (url state)
                    (or_empty (hover_elements state))")
      case (Inl err)
      from generate_hover_snd_raised [OF Inr this, of w] GenerateHoverFeatures
      show ?thesis by (simp add: run_node_def)
    next
      case (Inr content)
      from generate_hover_snd_ok [OF \<open>create_provider e = Inr u\<close> this, of w]
        GenerateHoverFeatures
      show ?thesis by (simp add: run_node_def)
    qed
  qed
next
  case GeneratePopupFeatures
  show ?thesis
  proof (cases "create_provider e")
    case (Inl err)
    from generate_popup_snd_provider [OF this, of state w] GeneratePopupFeatures
    show ?thesis by (simp add: run_node_def)
  next
    case (Inr u)
    show ?thesis
    proof (cases "generate_popup_features (llm_popup e) (url state)
                    (or_empty (popup_elements state))")
      case (Inl err)
      from generate_popup_snd_raised [OF Inr this, of w] GeneratePopupFeatures
      show ?thesis by (simp add: run_node_def)
    next
      case (Inr content)
      from generate_popup_snd_ok [OF \<open>create_provider e = Inr u\<close> this, of w]
        GeneratePopupFeatures
      show ?thesis by (simp add: run_node_def)
    qed
  qed
next
  case CompleteTask
  then show ?thesis by (simp add: run_node_def complete_task_node_world)
next
  case HandleError
  then show ?thesis by (simp add: run_node_def handle_error_node_world)
next
  case END
  then show ?thesis by (simp add: run_node_def)
qed

lemma run_graph_appends:
  "\<exists>ys fs. generated_features (db (tr_world (run_graph e n state w events)))
             = generated_features (db w) @ ys
          \<and> files (tr_world (run_graph e n state w events)) = files w @ fs"
proof (induction e n state w events rule: run_graph.induct)
  case (1 e n state w events)
  show ?case
  proof (cases "n = END")
    case True
    then show ?thesis by (simp add: run_graph_END)
  next
    case False
    show ?thesis
    proof (cases "snd (run_node e n state w)")
      case (Inl err)
      from run_node_appends [of e n state w] run_graph_raise [OF False Inl]
      show ?thesis by simp
    next
      case (Inr u)
      from "1.IH" [OF False Inr] run_node_appends [of e n state w]
        run_graph_step [OF False Inr, of events]
      show ?thesis by auto
    qed
  qed
qed

lemma generation_update_status:
  "snd (generate_hover_features_node e state w) = Inr upd \<Longrightarrow>
   u_status upd = None \<or> u_status upd = Some ''failed''"
  "snd (generate_popup_features_node e state w) = Inr upd' \<Longrightarrow>
   u_status upd' = None \<or> u_status upd' = Some ''failed''"
proof -
  assume a: "snd (generate_hover_features_node e state w) = Inr upd"
  show "u_status upd = None \<or> u_status upd = Some ''failed''"
  proof (cases "create_provider e")
    case (Inl err)
    from generate_hover_snd_provider [OF this, of state w] a
    show ?thesis by (auto simp: failed_update_def no_update_def)
  next
    case (Inr u)
    show ?thesis
    proof (cases "generate_hover_features (llm_hover e) (url state)
                    (or_empty (hover_elements state))")
      case (Inl err)
      from generate_hover_snd_raised [OF Inr this, of w] a
      show ?thesis by (auto simp: failed_update_def no_update_def)
    next
      case (Inr content)
      from generate_hover_snd_ok [OF \<open>create_provider e = Inr u\<close> this, of w] a
      show ?thesis by auto
    qed
  qed
next
  assume a: "snd (generate_popup_features_node e state w) = Inr upd'"
  show "u_status upd' = None \<or> u_status upd' = Some ''failed''"
  proof (cases "create_provider e")
    case (Inl err)
    from generate_popup_snd_provider [OF this, of state w] a
    show ?thesis by (auto simp: failed_update_def no_update_def)
  next
    case (Inr u)
    show ?thesis
    proof (cases "generate_popup_features (llm_popup e) (url state)
                    (or_empty (popup_elements state))")
      case (Inl err)
      from generate_popup_snd_raised [OF Inr this, of w] a
      show ?thesis by (auto simp: failed_update_def no_update_def)
    next
      case (Inr content)
      from generate_popup_snd_ok [OF \<open>create_provider e = Inr u\<close> this, of w] a
      show ?thesis by auto
    qed
  qed
qed

lemma merge_update_status:
  "status (merge_update state upd) = (case u_status upd of Some v \<Rightarrow> v | None \<Rightarrow> status state)"
  by (simp add: merge_update_def keep_def)

lemma failed_is_absorbing:
  "status state = ''failed'' \<Longrightarrow>
   n = GenerateHoverFeatures \<or> n = GeneratePopupFeatures \<or> n = HandleError \<or> n = END \<Longrightarrow>
   status (tr_state (run_graph e n state w events)) = ''failed''"
proof (induction e n state w events rule: run_graph.induct)
  case (1 e n state w events)
  show ?case
  proof (cases "n = END")
    case True
    with "1.prems" show ?thesis by (simp add: run_graph_END)
  next
    case False
    show ?thesis
    proof (cases "snd (run_node e n state w)")
      case (Inl err)
      from run_graph_raise [OF False Inl] "1.prems" show ?thesis by simp
    next
      case (Inr u)
      from False "1.prems"(2) Inr
      have st: "u_status u = None \<or> u_status u = Some ''failed''"
        by (auto simp: run_node_def dest: generation_update_status handle_error_node_status)
      with "1.prems"(1) have failed: "status (merge_update state u) = ''failed''"
        by (auto simp: merge_update_status)
      from False "1.prems"(2) failed
      have nxt: "next_node n (merge_update state u) = GenerateHoverFeatures
                 \<or> next_node n (merge_update state u) = GeneratePopupFeatures
                 \<or> next_node n (merge_update state u) = HandleError
                 \<or> next_node n (merge_update state u) = END"
        by (auto simp: next_node_def after_feature_generation_def)
      from "1.IH" [OF False Inr failed nxt] run_graph_step [OF False Inr, of events]
      show ?thesis by simp
    qed
  qed
qed

lemma failing_step_fails_run:
  assumes n: "n = BrowserAnalysis \<or> n = GenerateHoverFeatures \<or> n = GeneratePopupFeatures"
    and r: "snd (run_node e n state w) = Inr (failed_update m)"
  shows "status (tr_state (run_graph e n state w events)) = ''failed''"
proof -
  define s' where "s' = merge_update state (failed_update m)"
  have st: "status s' = ''failed''"
    by (simp add: s'_def merge_update_status failed_update_def)
  from n have ne: "n \<noteq> END" by auto
  from n st have nxt: "next_node n s' = GenerateHoverFeatures \<or> next_node n s' = GeneratePopupFeatures
      \<or> next_node n s' = HandleError \<or> next_node n s' = END"
    by (auto simp: next_node_def after_browser_analysis_def after_feature_generation_def)
  from run_graph_step [OF ne r, of events] failed_is_absorbing [OF st nxt]
  show ?thesis by (simp add: s'_def)
qed

lemma generate_hover_features_llm_raised:
  "elements \<noteq> [] \<Longrightarrow> generate_hover_features (Inl err) page elements = Inl err"
  by (simp add: generate_hover_features_def)

lemma generate_popup_features_llm_raised:
  "elements \<noteq> [] \<Longrightarrow> \<exists>err'. generate_popup_features (Inl err) page elements = Inl err'"
  by (simp add: generate_popup_features_def)

lemma merge_update_keeps:
  "url (merge_update state upd) = url state"
  "u_popup_elements upd = None \<Longrightarrow> popup_elements (merge_update state upd) = popup_elements state"
  "u_hover_elements upd = Some h \<Longrightarrow> hover_elements (merge_update state upd) = Some h"
  "u_popup_elements upd = Some p \<Longrightarrow> popup_elements (merge_update state upd) = Some p"
  by (simp_all add: merge_update_def keep_opt_def)

lemma isl_cases: "isl x \<Longrightarrow> \<exists>err. x = Inl err" "\<not> isl x \<Longrightarrow> \<exists>v. x = Inr v"
  by (cases x; simp)+

lemma from_complete:
  "status (tr_state (run_graph e CompleteTask state w events)) = ''completed''"
  "map msg_progress (ws_sent (tr_world (run_graph e CompleteTask state w events)))
     = map msg_progress (ws_sent w) @ [Some 100]"
proof -
  from complete_task_node_snd [of e state w]
  obtain upd where r: "snd (run_node e CompleteTask state w) = Inr upd"
    and u: "u_status upd = Some ''completed''"
    by (auto simp: run_node_def)
  have nxt: "next_node CompleteTask (merge_update state upd) = END"
    by (simp add: next_node_def)
  have eq: "run_graph e CompleteTask state w events =
      \<lparr>tr_world = fst (run_node e CompleteTask state w), tr_state = merge_update state upd,
       tr_events = events @ [(CompleteTask, upd)], tr_outcome = Inr ()\<rparr>"
    using run_graph_step [of CompleteTask e state w upd events] r nxt
    by (simp add: run_graph_END)
  show "status (tr_state (run_graph e CompleteTask state w events)) = ''completed''"
    by (simp add: eq merge_update_status u)
  show "map msg_progress (ws_sent (tr_world (run_graph e CompleteTask state w events)))
     = map msg_progress (ws_sent w) @ [Some 100]"
    by (simp add: eq run_node_def complete_task_node_world)
qed

lemma from_popup:
  assumes s: "status state \<noteq> ''failed''"
  shows "status (tr_state (run_graph e GeneratePopupFeatures state w events)) =
      (if isl (create_provider e)
          \<or> isl (generate_popup_features (llm_popup e) (url state)
                   (or_empty (popup_elements state)))
       then ''failed'' else ''completed'')"
    and "\<not> isl (create_provider e) \<Longrightarrow>
         \<not> isl (generate_popup_features (llm_popup e) (url state)
                  (or_empty (popup_elements state))) \<Longrightarrow>
         map msg_progress (ws_sent (tr_world (run_graph e GeneratePopupFeatures state w events)))
           = map msg_progress (ws_sent w) @ [Some 85, Some 100]"
proof -
  let ?g = "generate_popup_features (llm_popup e) (url state) (or_empty (popup_elements state))"
  have bad: "isl (create_provider e) \<or> isl ?g \<Longrightarrow>
      status (tr_state (run_graph e GeneratePopupFeatures state w events)) = ''failed''"
  proof -
    assume b: "isl (create_provider e) \<or> isl ?g"
    have "\<exists>m. snd (run_node e GeneratePopupFeatures state w) = Inr (failed_update m)"
    proof (cases "create_provider e")
      case (Inl err)
      from generate_popup_snd_provider [OF this, of state w]
      show ?thesis by (auto simp: run_node_def)
    next
      case (Inr x)
      with b isl_cases(1) [of ?g] obtain err where "?g = Inl err" by auto
      from generate_popup_snd_raised [OF Inr this, of w]
      show ?thesis by (auto simp: run_node_def)
    qed
    then obtain m where "snd (run_node e GeneratePopupFeatures state w) = Inr (failed_update m)"
      by blast
    from failing_step_fails_run [OF _ this] show ?thesis by simp
  qed
  have good: "\<not> isl (create_provider e) \<Longrightarrow> \<not> isl ?g \<Longrightarrow>
      status (tr_state (run_graph e GeneratePopupFeatures state w events)) = ''completed''
      \<and> map msg_progress (ws_sent (tr_world (run_graph e GeneratePopupFeatures state w events)))
           = map msg_progress (ws_sent w) @ [Some 85, Some 100]"
  proof -
    assume "\<not> isl (create_provider e)" "\<not> isl ?g"
    with isl_cases(2) [of "create_provider e"] isl_cases(2) [of ?g]
    obtain x c where x: "create_provider e = Inr x" and c: "?g = Inr c" by auto
    from generate_popup_snd_ok [OF x c, of w]
    obtain upd where r: "snd (run_node e GeneratePopupFeatures state w) = Inr upd"
      and u: "u_status upd = None"
      and sent: "map msg_progress (ws_sent (fst (run_node e GeneratePopupFeatures state w)))
                   = map msg_progress (ws_sent w) @ [Some 85]"
      by (auto simp: run_node_def)
    from s u have "status (merge_update state upd) \<noteq> ''failed''"
      by (simp add: merge_update_status)
    then have nxt: "next_node GeneratePopupFeatures (merge_update state upd) = CompleteTask"
      by (simp add: next_node_def after_feature_generation_def)
    from run_graph_step [of GeneratePopupFeatures e state w upd events] r nxt
    have "run_graph e GeneratePopupFeatures state w events =
        run_graph e CompleteTask (merge_update state upd)
          (fst (run_node e GeneratePopupFeatures state w)) (events @ [(GeneratePopupFeatures, upd)])"
      by simp
    with from_complete [of e "merge_update state upd"
        "fst (run_node e GeneratePopupFeatures state w)" "events @ [(GeneratePopupFeatures, upd)]"]
      sent
    show ?thesis by simp
  qed
  from bad good
  show "status (tr_state (run_graph e GeneratePopupFeatures state w events)) =
      (if isl (create_provider e) \<or> isl ?g then ''failed'' else ''completed'')"
    by auto
  from good
  show "\<not> isl (create_provider e) \<Longrightarrow> \<not> isl ?g \<Longrightarrow>
         map msg_progress (ws_sent (tr_world (run_graph e GeneratePopupFeatures state w events)))
           = map msg_progress (ws_sent w) @ [Some 85, Some 100]"
    by simp
qed


lemma from_hover:
  assumes s: "status state \<noteq> ''failed''"
  shows "status (tr_state (run_graph e GenerateHoverFeatures state w events)) =
      (if isl (create_provider e)
          \<or> isl (generate_hover_features (llm_hover e) (url state)
                   (or_empty (hover_elements state)))
          \<or> isl (generate_popup_features (llm_popup e) (url state)
                   (or_empty (popup_elements state)))
       then ''failed'' else ''completed'')"
    and "\<not> isl (create_provider e) \<Longrightarrow>
         \<not> isl (generate_hover_features (llm_hover e) (url state)
                  (or_empty (hover_elements state))) \<Longrightarrow>
         \<not> isl (generate_popup_features (llm_popup e) (url state)
                  (or_empty (popup_elements state))) \<Longrightarrow>
         map msg_progress (ws_sent (tr_world (run_graph e GenerateHoverFeatures state w events)))
           = map msg_progress (ws_sent w) @ [Some 70, Some 85, Some 100]"
proof -
  let ?h = "generate_hover_features (llm_hover e) (url state) (or_empty (hover_elements state))"
  let ?p = "generate_popup_features (llm_popup e) (url state) (or_empty (popup_elements state))"
  let ?T = "run_graph e GenerateHoverFeatures state w events"
  have bad: "isl (create_provider e) \<or> isl ?h \<Longrightarrow> status (tr_state ?T) = ''failed''"
  proof -
    assume b: "isl (create_provider e) \<or> isl ?h"
    have "\<exists>m. snd (run_node e GenerateHoverFeatures state w) = Inr (failed_update m)"
    proof (cases "create_provider e")
      case (Inl err)
      from generate_hover_snd_provider [OF this, of state w]
      show ?thesis by (auto simp: run_node_def)
    next
      case (Inr x)
      with b isl_cases(1) [of ?h] obtain err where "?h = Inl err" by auto
      from generate_hover_snd_raised [OF Inr this, of w]
      show ?thesis by (auto simp: run_node_def)
    qed
    then obtain m where "snd (run_node e GenerateHoverFeatures state w) = Inr (failed_update m)"
      by blast
    from failing_step_fails_run [OF _ this] show ?thesis by simp
  qed
  have good: "\<not> isl (create_provider e) \<Longrightarrow> \<not> isl ?h \<Longrightarrow>
      status (tr_state ?T) = (if isl ?p then ''failed'' else ''completed'')
      \<and> (\<not> isl ?p \<longrightarrow> map msg_progress (ws_sent (tr_world ?T))
                          = map msg_progress (ws_sent w) @ [Some 70, Some 85, Some 100])"
  proof -
    assume cp: "\<not> isl (create_provider e)" and "\<not> isl ?h"
    with isl_cases(2) [of "create_provider e"] isl_cases(2) [of ?h]
    obtain x c where x: "create_provider e = Inr x" and c: "?h = Inr c" by auto
    from generate_hover_snd_ok [OF x c, of w]
    obtain upd where r: "snd (run_node e GenerateHoverFeatures state w) = Inr upd"
      and u: "u_status upd = None" "u_popup_elements upd = None"
      and sent: "map msg_progress (ws_sent (fst (run_node e GenerateHoverFeatures state w)))
                   = map msg_progress (ws_sent w) @ [Some 70]"
      by (auto simp: run_node_def)
    define s' where "s' = merge_update state upd"
    define w' where "w' = fst (run_node e GenerateHoverFeatures state w)"
    from s u have s': "status s' \<noteq> ''failed''" "url s' = url state"
      "popup_elements s' = popup_elements state"
      by (simp_all add: s'_def merge_update_status merge_update_keeps)
    have nxt: "next_node GenerateHoverFeatures s' = GeneratePopupFeatures"
      by (simp add: next_node_def)
    from run_graph_step [of GenerateHoverFeatures e state w upd events] r nxt
    have eq: "?T = run_graph e GeneratePopupFeatures s' w' (events @ [(GenerateHoverFeatures, upd)])"
      by (simp add: s'_def w'_def)
    from from_popup [OF s'(1), of e w' "events @ [(GenerateHoverFeatures, upd)]"] cp sent
    show ?thesis by (simp add: eq s'(2,3) w'_def)
  qed
  show "status (tr_state ?T) =
      (if isl (create_provider e) \<or> isl ?h \<or> isl ?p then ''failed'' else ''completed'')"
  proof (cases "isl (create_provider e) \<or> isl ?h")
    case True
    from bad [OF True] True show ?thesis by auto
  next
    case False
    then have "\<not> isl (create_provider e)" "\<not> isl ?h" by simp_all
    from good [OF this] False show ?thesis by simp
  qed
  from good
  show "\<not> isl (create_provider e) \<Longrightarrow> \<not> isl ?h \<Longrightarrow> \<not> isl ?p \<Longrightarrow>
         map msg_progress (ws_sent (tr_world ?T))
           = map msg_progress (ws_sent w) @ [Some 70, Some 85, Some 100]"
    by simp
qed

lemma from_browser:
  assumes s: "status state \<noteq> ''failed''"
  shows "status (tr_state (run_graph e BrowserAnalysis state w events)) =
      (if isl (browser_initialize e) \<or> isl (page_goto e) \<or> isl (create_provider e)
          \<or> isl (generate_hover_features (llm_hover e) (url state)
                   (projr (analyze_hover_elements (hover_pass e))))
          \<or> isl (generate_popup_features (llm_popup e) (url state)
                   (projr (analyze_popup_elements (popup_pass e))))
       then ''failed'' else ''completed'')"
    and "\<not> isl (browser_initialize e) \<Longrightarrow> \<not> isl (page_goto e) \<Longrightarrow>
         \<not> isl (create_provider e) \<Longrightarrow>
         \<not> isl (generate_hover_features (llm_hover e) (url state)
                  (projr (analyze_hover_elements (hover_pass e)))) \<Longrightarrow>
         \<not> isl (generate_popup_features (llm_popup e) (url state)
                  (projr (analyze_popup_elements (popup_pass e)))) \<Longrightarrow>
         map msg_progress (ws_sent (tr_world (run_graph e BrowserAnalysis state w events)))
           = map msg_progress (ws_sent w)
             @ [Some 10, Some 20, Some 30, Some 40, Some 60, Some 70, Some 85, Some 100]"
proof -
  let ?h = "generate_hover_features (llm_hover e) (url state)
              (projr (analyze_hover_elements (hover_pass e)))"
  let ?p = "generate_popup_features (llm_popup e) (url state)
              (projr (analyze_popup_elements (popup_pass e)))"
  let ?T = "run_graph e BrowserAnalysis state w events"
  have bad: "isl (browser_initialize e) \<or> isl (page_goto e) \<Longrightarrow> status (tr_state ?T) = ''failed''"
  proof -
    assume b: "isl (browser_initialize e) \<or> isl (page_goto e)"
    have "\<exists>m. snd (run_node e BrowserAnalysis state w) = Inr (failed_update m)"
    proof (cases "browser_initialize e")
      case (Inl err)
      from browser_analysis_snd_init [OF this, of state w]
      show ?thesis by (auto simp: run_node_def)
    next
      case (Inr x)
      with b isl_cases(1) [of "page_goto e"] obtain err where "page_goto e = Inl err" by auto
      from browser_analysis_snd_goto [OF Inr this, of state w]
      show ?thesis by (auto simp: run_node_def)
    qed
    then obtain m where "snd (run_node e BrowserAnalysis state w) = Inr (failed_update m)"
      by blast
    from failing_step_fails_run [OF _ this] show ?thesis by simp
  qed
  have good: "\<not> isl (browser_initialize e) \<Longrightarrow> \<not> isl (page_goto e) \<Longrightarrow>
      status (tr_state ?T) =
        (if isl (create_provider e) \<or> isl ?h \<or> isl ?p then ''failed'' else ''completed'')
      \<and> (\<not> isl (create_provider e) \<longrightarrow> \<not> isl ?h \<longrightarrow> \<not> isl ?p \<longrightarrow>
           map msg_progress (ws_sent (tr_world ?T))
             = map msg_progress (ws_sent w)
               @ [Some 10, Some 20, Some 30, Some 40, Some 60, Some 70, Some 85, Some 100])"
  proof -
    assume "\<not> isl (browser_initialize e)" "\<not> isl (page_goto e)"
    with isl_cases(2) [of "browser_initialize e"] isl_cases(2) [of "page_goto e"]
    obtain x v where x: "browser_initialize e = Inr x" and v: "page_goto e = Inr v" by auto
    from browser_analysis_snd_ok [OF x v, of state w]
    obtain upd where r: "snd (run_node e BrowserAnalysis state w) = Inr upd"
      and u: "u_status upd = None"
        "u_hover_elements upd = Some (projr (analyze_hover_elements (hover_pass e)))"
        "u_popup_elements upd = Some (projr (analyze_popup_elements (popup_pass e)))"
      by (auto simp: run_node_def)
    have sent: "map msg_progress (ws_sent (fst (run_node e BrowserAnalysis state w)))
                   = map msg_progress (ws_sent w) @ [Some 10, Some 20, Some 30, Some 40, Some 60]"
      using browser_analysis_sent_ok [OF x v, of state w] by (simp add: run_node_def)
    define s' where "s' = merge_update state upd"
    define w' where "w' = fst (run_node e BrowserAnalysis state w)"
    from s u have s': "status s' \<noteq> ''failed''" "url s' = url state"
      "or_empty (hover_elements s') = projr (analyze_hover_elements (hover_pass e))"
      "or_empty (popup_elements s') = projr (analyze_popup_elements (popup_pass e))"
      by (simp_all add: s'_def merge_update_status merge_update_keeps or_empty_def)
    from s'(1) have nxt: "next_node BrowserAnalysis s' = GenerateHoverFeatures"
      by (simp add: next_node_def after_browser_analysis_def)
    from run_graph_step [of BrowserAnalysis e state w upd events] r nxt
    have eq: "?T = run_graph e GenerateHoverFeatures s' w' (events @ [(BrowserAnalysis, upd)])"
      by (simp add: s'_def w'_def)
    from from_hover [OF s'(1), of e w' "events @ [(BrowserAnalysis, upd)]"] sent
    show ?thesis by (simp add: eq s'(2,3,4) w'_def)
  qed
  show "status (tr_state ?T) =
      (if isl (browser_initialize e) \<or> isl (page_goto e) \<or> isl (create_provider e)
          \<or> isl ?h \<or> isl ?p then ''failed'' else ''completed'')"
  proof (cases "isl (browser_initialize e) \<or> isl (page_goto e)")
    case True
    from bad [OF True] True show ?thesis by auto
  next
    case False
    then have "\<not> isl (browser_initialize e)" "\<not> isl (page_goto e)" by simp_all
    from good [OF this] False show ?thesis by simp
  qed
  from good
  show "\<not> isl (browser_initialize e) \<Longrightarrow> \<not> isl (page_goto e) \<Longrightarrow>
         \<not> isl (create_provider e) \<Longrightarrow> \<not> isl ?h \<Longrightarrow> \<not> isl ?p \<Longrightarrow>
         map msg_progress (ws_sent (tr_world ?T))
           = map msg_progress (ws_sent w)
             @ [Some 10, Some 20, Some 30, Some 40, Some 60, Some 70, Some 85, Some 100]"
    by simp
qed

lemma from_create:
  shows "status (tr_state (run_graph e CreateTask (initial_state target) w [])) =
      (if isl (browser_initialize e) \<or> isl (page_goto e) \<or> isl (create_provider e)
          \<or> isl (generate_hover_features (llm_hover e) target
                   (projr (analyze_hover_elements (hover_pass e))))
          \<or> isl (generate_popup_features (llm_popup e) target
                   (projr (analyze_popup_elements (popup_pass e))))
       then ''failed'' else ''completed'')"
    and "\<not> isl (browser_initialize e) \<Longrightarrow> \<not> isl (page_goto e) \<Longrightarrow>
         \<not> isl (create_provider e) \<Longrightarrow>
         \<not> isl (generate_hover_features (llm_hover e) target
                  (projr (analyze_hover_elements (hover_pass e)))) \<Longrightarrow>
         \<not> isl (generate_popup_features (llm_popup e) target
                  (projr (analyze_popup_elements (popup_pass e)))) \<Longrightarrow>
         map msg_progress (ws_sent (tr_world (run_graph e CreateTask (initial_state target) w [])))
           = map msg_progress (ws_sent w)
             @ [Some 0, Some 10, Some 20, Some 30, Some 40, Some 60, Some 70, Some 85, Some 100]"
proof -
  let ?T = "run_graph e CreateTask (initial_state target) w []"
  from create_task_node_snd [of e "initial_state target" w]
  obtain upd where r: "snd (run_node e CreateTask (initial_state target) w) = Inr upd"
    and u: "u_status upd = Some ''running''"
    by (auto simp: run_node_def no_update_def)
  have sent: "map msg_progress (ws_sent (fst (run_node e CreateTask (initial_state target) w)))
                = map msg_progress (ws_sent w) @ [Some 0]"
    by (simp add: run_node_def create_task_node_world)
  define s' where "s' = merge_update (initial_state target) upd"
  define w' where "w' = fst (run_node e CreateTask (initial_state target) w)"
  from u have s': "status s' \<noteq> ''failed''" "url s' = target"
    by (simp_all add: s'_def merge_update_status merge_update_keeps initial_state_def)
  from s'(1) have nxt: "next_node CreateTask s' = BrowserAnalysis"
    by (simp add: next_node_def after_create_task_def)
  from run_graph_step [of CreateTask e "initial_state target" w upd "[]"] r nxt
  have eq: "?T = run_graph e BrowserAnalysis s' w' [(CreateTask, upd)]"
    by (simp add: s'_def w'_def)
  from from_browser(1) [OF s'(1), of e w' "[(CreateTask, upd)]"]
  show "status (tr_state ?T) =
      (if isl (browser_initialize e) \<or> isl (page_goto e) \<or> isl (create_provider e)
          \<or> isl (generate_hover_features (llm_hover e) target
                   (projr (analyze_hover_elements (hover_pass e))))
          \<or> isl (generate_popup_features (llm_popup e) target
                   (projr (analyze_popup_elements (popup_pass e))))
       then ''failed'' else ''completed'')"
    by (simp add: eq s'(2))
  assume "\<not> isl (browser_initialize e)" "\<not> isl (page_goto e)" "\<not> isl (create_provider e)"
    "\<not> isl (generate_hover_features (llm_hover e) target
              (projr (analyze_hover_elements (hover_pass e))))"
    "\<not> isl (generate_popup_features (llm_popup e) target
              (projr (analyze_popup_elements (popup_pass e))))"
  with from_browser(2) [OF s'(1), of e w' "[(CreateTask, upd)]"] sent
  show "map msg_progress (ws_sent (tr_world ?T))
           = map msg_progress (ws_sent w)
             @ [Some 0, Some 10, Some 20, Some 30, Some 40, Some 60, Some 70, Some 85, Some 100]"
    by (simp add: eq s'(2) w'_def)
qed

lemma example_hover_pass: "analyze_hover_elements example_hover_page =
  Inr [\<lparr>che_info = example_candidate, hover_confirmed = True,
        revealed_elements =
          [\<lparr>ve_text = Some ''Shop the Latest'', ve_tag = ''A'', ve_href = Some ''/latest'',
            ve_visible = True\<rparr>]\<rparr>]"
  by code_simp

lemma example_popup_pass: "analyze_popup_elements example_popup_page =
  Inr [\<lparr>cpt_info = example_trigger, popup_confirmed = True,
        popup_details = [\<lparr>md_text = Some ''Sign up now'', md_class = [],
                           md_role = Some ''dialog'', hasCloseButton = True\<rparr>]\<rparr>]"
  by code_simp

lemma clean_empty: "clean_gherkin_output [] = []"
  by code_simp


lemma generate_hover_features_returns:
  "\<not> isl (generate_hover_features (Inr feature_text) page elements)"
  by (simp add: generate_hover_features_def)

lemma example_popup_generation:
  "\<not> isl (generate_popup_features (Inr feature_text) page
            (projr (analyze_popup_elements example_popup_page)))"
  by (simp add: example_popup_pass generate_popup_features_def popup_prompt_raises_def)

lemma example_run_completes:
  "status (tr_state (run_graph (example_env\<lparr>llm_hover := Inr feature_text\<rparr>) CreateTask
                       (initial_state target) w [])) = ''completed''"
  using from_create(1) [of "example_env\<lparr>llm_hover := Inr feature_text\<rparr>" target w]
  by (simp add: example_env_def generate_hover_features_returns example_popup_generation)

subsection \<open>Navigation failure\<close>

lemma browser_analysis_navigation_fails:
  assumes "page_goto e = Inl err"
  shows "\<exists>m. m \<noteq> [] \<and> snd (browser_analysis_subgraph e state w) = Inr (failed_update m)"
    and "dom_analysis (db (fst (browser_analysis_subgraph e state w))) = dom_analysis (db w)"
proof -
  show "\<exists>m. m \<noteq> [] \<and> snd (browser_analysis_subgraph e state w) = Inr (failed_update m)"
  proof (cases "browser_initialize e")
    case (Inl x)
    from browser_analysis_snd_init [OF this, of state w] show ?thesis
      by (intro exI [of _ "''Browser analysis error: '' @ x"]) simp
  next
    case (Inr u)
    from browser_analysis_snd_goto [OF this assms, of state w] show ?thesis
      by (intro exI [of _ "''Browser analysis error: '' @ ''Failed to load URL: '' @ url state"])
         simp
  qed
  show "dom_analysis (db (fst (browser_analysis_subgraph e state w))) = dom_analysis (db w)"
  proof (cases "browser_initialize e")
    case (Inl x)
    from browser_analysis_dom_init [OF this] show ?thesis .
  next
    case (Inr u)
    from browser_analysis_dom_goto [OF this assms] show ?thesis .
  qed
qed

lemma handle_error_node_dom:
  "dom_analysis (db (fst (handle_error_node e state w))) = dom_analysis (db w)"
  "length (test_tasks (db (fst (handle_error_node e state w)))) = length (test_tasks (db w))"
  by (cases "error_message state"; simp add: handle_error_node_def Let_def)+

text \<open>
  Claim C5. Take a run in which \<open>page.goto\<close> raises, so that \<open>navigate_to_url\<close> returns
  \<open>False\<close>. Then \<open>generate_tests\<close> returns no result but raises; the run state at the end
  of the graph has status \<open>failed\<close> and a non-empty error message, and its page structure,
  hover elements, popup elements and result are still \<open>None\<close>; no row was added to the
  \<open>dom_analysis\<close> table; and the row of the task in the store has status \<open>failed\<close> and a
  non-empty error message. The store itself is taken to work.
\<close>

theorem navigation_failure_fails_run:
  assumes nav: "page_goto e = Inl err"
    and k: "k = Suc (length (test_tasks (db w)))"
    and trace: "trace = run_graph e CreateTask (initial_state target) w []"
    and outcome: "outcome = generate_tests e self_task_id target w"
  shows "(\<exists>msg. snd outcome = Inl msg)
     \<and> status (tr_state trace) = ''failed''
     \<and> (\<exists>m. error_message (tr_state trace) = Some m \<and> m \<noteq> [])
     \<and> page_structure (tr_state trace) = None
     \<and> hover_elements (tr_state trace) = None
     \<and> popup_elements (tr_state trace) = None
     \<and> result (tr_state trace) = None
     \<and> dom_analysis (db (fst outcome)) = dom_analysis (db w)
     \<and> (\<exists>row m. get_task (db (fst outcome)) k = Some row
                \<and> row_status row = ''failed'' \<and> row_error_message row = Some m \<and> m \<noteq> [])"
proof -
  define s0 where "s0 = initial_state target"
  define u1 where
    "u1 = no_update\<lparr>u_task_id := Some k, u_status := Some ''running'', u_progress := Some 5,
                     u_current_step := Some ''Task created'',
                     u_logs := [''Task '' @ string_of_nat k @ '' created for '' @ url s0]\<rparr>"
  define w1 where "w1 = fst (run_node e CreateTask s0 w)"
  define s1 where "s1 = merge_update s0 u1"
  have u1: "u_task_id u1 = Some k" "u_status u1 = Some ''running''" "u_error_message u1 = None"
    "u_page_structure u1 = None" "u_hover_elements u1 = None" "u_popup_elements u1 = None"
    "u_result u1 = None"
    by (simp_all add: u1_def no_update_def)
  have r1: "snd (run_node e CreateTask s0 w) = Inr u1"
    by (simp add: run_node_def create_task_node_snd k u1_def)
  have s1: "status s1 = ''running''" "task_id s1 = Some k" "error_message s1 = None"
    "page_structure s1 = None" "hover_elements s1 = None" "popup_elements s1 = None"
    "result s1 = None"
    by (simp_all add: s1_def s0_def merge_update_def initial_state_def keep_def keep_opt_def u1)
  have n1: "next_node CreateTask s1 = BrowserAnalysis"
    by (simp add: next_node_def after_create_task_def s1)
  have w1: "length (test_tasks (db w1)) = k" "dom_analysis (db w1) = dom_analysis (db w)"
    by (simp_all add: w1_def run_node_def create_task_node_world k)
  define w2 where "w2 = fst (run_node e BrowserAnalysis s1 w1)"
  from browser_analysis_navigation_fails(1) [OF nav, of s1 w1]
  obtain m where m: "m \<noteq> []"
    and r2: "snd (run_node e BrowserAnalysis s1 w1) = Inr (failed_update m)"
    by (auto simp: run_node_def)
  define s2 where "s2 = merge_update s1 (failed_update m)"
  have s2: "status s2 = ''failed''" "task_id s2 = Some k" "error_message s2 = Some m"
    "page_structure s2 = None" "hover_elements s2 = None" "popup_elements s2 = None"
    "result s2 = None"
    by (simp_all add: s2_def merge_update_def no_update_def failed_update_def
        keep_def keep_opt_def s1)
  have n2: "next_node BrowserAnalysis s2 = HandleError"
    by (simp add: next_node_def after_browser_analysis_def s2)
  have w2: "length (test_tasks (db w2)) = k" "dom_analysis (db w2) = dom_analysis (db w)"
    using browser_analysis_navigation_fails(2) [OF nav, of s1 w1]
    by (simp_all add: w2_def run_node_def browser_analysis_world w1)
  define u3 where
    "u3 = no_update\<lparr>u_status := Some ''failed'', u_logs := [''Error handled: '' @ m]\<rparr>"
  define w3 where "w3 = fst (run_node e HandleError s2 w2)"
  define s3 where "s3 = merge_update s2 u3"
  have u3: "u_task_id u3 = None" "u_status u3 = Some ''failed''" "u_error_message u3 = None"
    "u_page_structure u3 = None" "u_hover_elements u3 = None" "u_popup_elements u3 = None"
    "u_result u3 = None"
    by (simp_all add: u3_def no_update_def)
  have r3: "snd (run_node e HandleError s2 w2) = Inr u3"
    using handle_error_node_snd [OF s2(3), of e w2] by (simp add: run_node_def u3_def)
  have s3: "status s3 = ''failed''" "error_message s3 = Some m"
    "page_structure s3 = None" "hover_elements s3 = None" "popup_elements s3 = None"
    "result s3 = None"
    by (simp_all add: s3_def merge_update_def keep_def keep_opt_def s2 u3)
  have n3: "next_node HandleError s3 = END"
    by (simp add: next_node_def)
  have w3: "length (test_tasks (db w3)) = k" "dom_analysis (db w3) = dom_analysis (db w)"
    by (simp_all add: w3_def run_node_def handle_error_node_dom w2)
  define events where
    "events = [(CreateTask, u1), (BrowserAnalysis, failed_update m), (HandleError, u3)]"
  have "run_graph e CreateTask s0 w [] = run_graph e BrowserAnalysis s1 w1 [(CreateTask, u1)]"
    using run_graph_step [of CreateTask e s0 w u1 "[]"] r1 n1 by (simp add: s1_def w1_def)
  also have "\<dots> = run_graph e HandleError s2 w2
                      [(CreateTask, u1), (BrowserAnalysis, failed_update m)]"
    using run_graph_step [of BrowserAnalysis e s1 w1 "failed_update m" "[(CreateTask, u1)]"]
      r2 n2 by (simp add: s2_def w2_def)
  also have "\<dots> = run_graph e END s3 w3 events"
    using run_graph_step [of HandleError e s2 w2 u3
        "[(CreateTask, u1), (BrowserAnalysis, failed_update m)]"] r3 n3
    by (simp add: s3_def w3_def events_def)
  finally have tr: "run_graph e CreateTask (initial_state target) w [] =
      \<lparr>tr_world = w3, tr_state = s3, tr_events = events, tr_outcome = Inr ()\<rparr>"
    by (simp add: run_graph_END s0_def)
  have sr: "stream_result events = Inl ''Unknown error''"
    by (simp add: stream_result_def events_def u3)
  have kpos: "k \<noteq> 0" by (simp add: k)
  have lt: "last_task_id self_task_id events = Some k"
    using kpos by (simp add: last_task_id_def events_def u1 u3 failed_update_def no_update_def)
  define emsg where "emsg = ''Error in test generation: '' @ ''Unknown error''"
  define w4 where
    "w4 = fst (send_ws_update e
                 \<lparr>msg_type = ''error'', msg_task_id = k, msg_status = ''failed'',
                  msg_progress = None, msg_current_step = None, msg_error = Some emsg\<rparr>
                 (on_db (add_log k ''ERROR'' emsg None)
                    (on_db (update_task_status k ''failed'' None None (Some emsg)) w3)))"
  have out: "outcome = (w4, Inl ''Unknown error'')"
    using kpos by (simp add: outcome generate_tests_def Let_def tr sr lt w4_def emsg_def)
  have d4: "dom_analysis (db w4) = dom_analysis (db w)"
    by (simp add: w4_def w3)
  from get_task_update_failed [of k "db w3" "''failed''" None None emsg] w3(1) kpos
  have g4: "\<exists>row. get_task (db w4) k = Some row \<and> row_status row = ''failed''
                  \<and> row_error_message row = Some emsg"
    by (simp add: w4_def)
  have e4: "emsg \<noteq> []" by (simp add: emsg_def)
  from tr have trs: "tr_state trace = s3" by (simp add: trace)
  show ?thesis
    using out trs s3 m d4 g4 e4 by auto
qed

theorem navigation_failure_fails_run_witness:
  "page_goto (example_env\<lparr>page_goto := Inl ''Timeout 30000ms exceeded''\<rparr>)
     = Inl ''Timeout 30000ms exceeded''
   \<and> (\<exists>msg. snd (generate_tests (example_env\<lparr>page_goto := Inl ''Timeout 30000ms exceeded''\<rparr>)
                  None ''https://example.com'' example_world) = Inl msg)
   \<and> status (tr_state (run_graph (example_env\<lparr>page_goto := Inl ''Timeout 30000ms exceeded''\<rparr>)
                         CreateTask (initial_state ''https://example.com'') example_world []))
       = ''failed''
   \<and> dom_analysis (db (fst (generate_tests
         (example_env\<lparr>page_goto := Inl ''Timeout 30000ms exceeded''\<rparr>)
         None ''https://example.com'' example_world))) = []
   \<and> (\<exists>row m. get_task (db (fst (generate_tests
                   (example_env\<lparr>page_goto := Inl ''Timeout 30000ms exceeded''\<rparr>)
                   None ''https://example.com'' example_world))) 1 = Some row
              \<and> row_status row = ''failed'' \<and> row_error_message row = Some m \<and> m \<noteq> [])"
  using navigation_failure_fails_run [of "example_env\<lparr>page_goto := Inl ''Timeout 30000ms exceeded''\<rparr>"
      "''Timeout 30000ms exceeded''" 1 example_world
      "run_graph (example_env\<lparr>page_goto := Inl ''Timeout 30000ms exceeded''\<rparr>)
         CreateTask (initial_state ''https://example.com'') example_world []"
      "''https://example.com''"
      "generate_tests (example_env\<lparr>page_goto := Inl ''Timeout 30000ms exceeded''\<rparr>)
         None ''https://example.com'' example_world"
      None]
  by (simp add: example_world_def)

subsection \<open>Generation failure\<close>

text \<open>
  Claim C6, amended. Take a generation step (hover or popup) at which the scenario
  generator raises: creating the generator raises, or \<open>generate_hover_features\<close>
  (respectively \<open>generate_popup_features\<close>) raises, as it does when the call of the
  language model raises. Then the step returns the failed update with a non-empty error
  message and saves nothing, the run ends with status \<open>failed\<close>, and every feature row
  and feature file saved before the step is still there at the end of the run, in the
  same order. (A text that the generator returns empty is not a failure, see below.)
\<close>

theorem generator_exception_fails_run:
  assumes "(n = GenerateHoverFeatures
              \<and> (create_provider e = Inl err
                  \<or> generate_hover_features (llm_hover e) (url state)
                       (or_empty (hover_elements state)) = Inl err))
           \<or> (n = GeneratePopupFeatures
              \<and> (create_provider e = Inl err
                  \<or> generate_popup_features (llm_popup e) (url state)
                       (or_empty (popup_elements state)) = Inl err))"
  shows "(\<exists>m. m \<noteq> [] \<and> snd (run_node e n state w) = Inr (failed_update m))
     \<and> generated_features (db (fst (run_node e n state w))) = generated_features (db w)
     \<and> files (fst (run_node e n state w)) = files w
     \<and> status (tr_state (run_graph e n state w events)) = ''failed''
     \<and> (\<exists>ys fs. generated_features (db (tr_world (run_graph e n state w events)))
                   = generated_features (db w) @ ys
                \<and> files (tr_world (run_graph e n state w events)) = files w @ fs)"
proof -
  have step: "\<exists>m. m \<noteq> [] \<and> snd (run_node e n state w) = Inr (failed_update m)
       \<and> generated_features (db (fst (run_node e n state w))) = generated_features (db w)
       \<and> files (fst (run_node e n state w)) = files w"
    using assms
  proof (elim disjE conjE)
    assume n: "n = GenerateHoverFeatures" and "create_provider e = Inl err"
    from generate_hover_snd_provider [OF this(2), of state w] n
    show ?thesis
      by (intro exI [of _ "''Hover feature generation failed: '' @ err"]) (simp add: run_node_def)
  next
    assume n: "n = GenerateHoverFeatures"
      and g: "generate_hover_features (llm_hover e) (url state)
                (or_empty (hover_elements state)) = Inl err"
    show ?thesis
    proof (cases "create_provider e")
      case (Inl x)
      from generate_hover_snd_provider [OF this, of state w] n
      show ?thesis
        by (intro exI [of _ "''Hover feature generation failed: '' @ x"]) (simp add: run_node_def)
    next
      case (Inr u)
      from generate_hover_snd_raised [OF Inr g, of w] n
      show ?thesis
        by (intro exI [of _ "''Hover feature generation failed: '' @ err"]) (simp add: run_node_def)
    qed
  next
    assume n: "n = GeneratePopupFeatures" and "create_provider e = Inl err"
    from generate_popup_snd_provider [OF this(2), of state w] n
    show ?thesis
      by (intro exI [of _ "''Popup feature generation failed: '' @ err"]) (simp add: run_node_def)
  next
    assume n: "n = GeneratePopupFeatures"
      and g: "generate_popup_features (llm_popup e) (url state)
                (or_empty (popup_elements state)) = Inl err"
    show ?thesis
    proof (cases "create_provider e")
      case (Inl x)
      from generate_popup_snd_provider [OF this, of state w] n
      show ?thesis
        by (intro exI [of _ "''Popup feature generation failed: '' @ x"]) (simp add: run_node_def)
    next
      case (Inr u)
      from generate_popup_snd_raised [OF Inr g, of w] n
      show ?thesis
        by (intro exI [of _ "''Popup feature generation failed: '' @ err"]) (simp add: run_node_def)
    qed
  qed
  then obtain m where m: "m \<noteq> []" and r: "snd (run_node e n state w) = Inr (failed_update m)"
    by blast
  from assms have n: "n = BrowserAnalysis \<or> n = GenerateHoverFeatures \<or> n = GeneratePopupFeatures"
    by blast
  from step failing_step_fails_run [OF n r, of events] run_graph_appends [of e n state w events]
  show ?thesis by blast
qed

theorem generator_exception_fails_run_witness:
  "llm_popup (example_env\<lparr>llm_popup := Inl ''rate limit exceeded''\<rparr>) = Inl ''rate limit exceeded''
   \<and> generate_popup_features (llm_popup (example_env\<lparr>llm_popup := Inl ''rate limit exceeded''\<rparr>))
        (url example_state) (or_empty (popup_elements example_state))
      = Inl ''rate limit exceeded''
   \<and> generated_features (db example_world_saved) \<noteq> []
   \<and> (\<exists>m. m \<noteq> []
          \<and> snd (run_node (example_env\<lparr>llm_popup := Inl ''rate limit exceeded''\<rparr>)
                   GeneratePopupFeatures example_state example_world_saved)
              = Inr (failed_update m))
   \<and> generated_features (db (fst (run_node
         (example_env\<lparr>llm_popup := Inl ''rate limit exceeded''\<rparr>)
         GeneratePopupFeatures example_state example_world_saved)))
       = generated_features (db example_world_saved)
   \<and> status (tr_state (run_graph (example_env\<lparr>llm_popup := Inl ''rate limit exceeded''\<rparr>)
                         GeneratePopupFeatures example_state example_world_saved []))
       = ''failed''"
proof -
  have a: "generate_popup_features
             (llm_popup (example_env\<lparr>llm_popup := Inl ''rate limit exceeded''\<rparr>))
             (url example_state) (or_empty (popup_elements example_state))
           = Inl ''rate limit exceeded''"
    by (simp add: example_state_def or_empty_def generate_popup_features_def
        popup_prompt_raises_def)
  have b: "generated_features (db example_world_saved) \<noteq> []"
    by (simp add: example_world_saved_def)
  from a
    generator_exception_fails_run [of GeneratePopupFeatures "example_env\<lparr>llm_popup := Inl ''rate limit exceeded''\<rparr>"
        "''rate limit exceeded''" example_state example_world_saved "[]"]
  show ?thesis using b by simp
qed

text \<open>
  Claim C6 as stated fails where the generator returns an empty text. On the example
  page the hover pass confirms one element, so the language model is called; when it
  returns the empty string, \<open>generate_hover_features\<close> returns the empty string, the step
  saves it as the hover feature, and the run ends with status \<open>completed\<close>.
\<close>

theorem empty_generator_text_completes_run:
  "llm_hover (example_env\<lparr>llm_hover := Inr []\<rparr>) = Inr []
   \<and> projr (analyze_hover_elements (hover_pass (example_env\<lparr>llm_hover := Inr []\<rparr>))) \<noteq> []
   \<and> generate_hover_features (llm_hover (example_env\<lparr>llm_hover := Inr []\<rparr>))
        ''https://example.com''
        (projr (analyze_hover_elements (hover_pass (example_env\<lparr>llm_hover := Inr []\<rparr>))))
      = Inr []
   \<and> status (tr_state (run_graph (example_env\<lparr>llm_hover := Inr []\<rparr>) CreateTask
                         (initial_state ''https://example.com'') example_world []))
       = ''completed''"
proof -
  have a: "hover_pass (example_env\<lparr>llm_hover := Inr []\<rparr>) = example_hover_page"
    by (simp add: example_env_def)
  show ?thesis
    by (simp add: a example_hover_pass generate_hover_features_def clean_empty
        example_run_completes)
qed

subsection \<open>Progress of a successful run\<close>

text \<open>
  Claim C7. Take a run that ends with status \<open>completed\<close>. The progress values of the
  messages this run handed to \<open>send_ws_update\<close>, in order, are
  0, 10, 20, 30, 40, 60, 70, 85, 100: a non-decreasing sequence whose last value is 100.
\<close>

theorem successful_run_progress_sequence:
  assumes trace: "trace = run_graph e CreateTask (initial_state target) w []"
    and ok: "status (tr_state trace) = ''completed''"
    and emitted: "emitted = map msg_progress (drop (length (ws_sent w)) (ws_sent (tr_world trace)))"
  shows "\<exists>ps. emitted = map Some ps \<and> ps = [0, 10, 20, 30, 40, 60, 70, 85, 100]
              \<and> sorted ps \<and> last ps = 100"
proof -
  from ok from_create(1) [of e target w]
  have cond: "\<not> isl (browser_initialize e)" "\<not> isl (page_goto e)" "\<not> isl (create_provider e)"
    "\<not> isl (generate_hover_features (llm_hover e) target
              (projr (analyze_hover_elements (hover_pass e))))"
    "\<not> isl (generate_popup_features (llm_popup e) target
              (projr (analyze_popup_elements (popup_pass e))))"
    by (auto simp: trace split: if_splits)
  from from_create(2) [OF cond, of w]
  have "map msg_progress (ws_sent (tr_world trace)) = map msg_progress (ws_sent w)
          @ [Some 0, Some 10, Some 20, Some 30, Some 40, Some 60, Some 70, Some 85, Some 100]"
    by (simp add: trace)
  then have "drop (length (ws_sent w)) (map msg_progress (ws_sent (tr_world trace)))
               = [Some 0, Some 10, Some 20, Some 30, Some 40, Some 60, Some 70, Some 85, Some 100]"
    by simp
  then have "emitted = map Some [0, 10, 20, 30, 40, 60, 70, 85, 100]"
    by (simp add: emitted drop_map)
  then show ?thesis by simp
qed

theorem successful_run_progress_sequence_witness:
  "status (tr_state (run_graph example_env CreateTask (initial_state ''https://example.com'')
                       example_world [])) = ''completed''
   \<and> map msg_progress
        (drop (length (ws_sent example_world))
           (ws_sent (tr_world (run_graph example_env CreateTask
                                 (initial_state ''https://example.com'') example_world []))))
      = [Some 0, Some 10, Some 20, Some 30, Some 40, Some 60, Some 70, Some 85, Some 100]"
proof -
  have e: "example_env\<lparr>llm_hover := llm_hover example_env\<rparr> = example_env" by simp
  have h: "llm_hover example_env = Inr (projr (llm_hover example_env))"
    by (simp add: example_env_def)
  from example_run_completes [of "projr (llm_hover example_env)" "''https://example.com''"
      example_world] h e
  have c: "status (tr_state (run_graph example_env CreateTask
                     (initial_state ''https://example.com'') example_world [])) = ''completed''"
    by simp
  from successful_run_progress_sequence [OF refl c refl] c show ?thesis by simp
qed

subsection \<open>Failure of the progress sink\<close>

lemma create_task_node_sink:
  "snd (create_task_node (e\<lparr>websocket_manager := sink\<rparr>) state w) = snd (create_task_node e state w)
   \<and> db (fst (create_task_node (e\<lparr>websocket_manager := sink\<rparr>) state w))
       = db (fst (create_task_node e state w))
   \<and> files (fst (create_task_node (e\<lparr>websocket_manager := sink\<rparr>) state w))
       = files (fst (create_task_node e state w))
   \<and> ws_sent (fst (create_task_node (e\<lparr>websocket_manager := sink\<rparr>) state w))
       = ws_sent (fst (create_task_node e state w))"
  by (simp add: create_task_node_def Let_def)

lemma browser_analysis_sink:
  "snd (browser_analysis_subgraph (e\<lparr>websocket_manager := sink\<rparr>) state w)
     = snd (browser_analysis_subgraph e state w)
   \<and> db (fst (browser_analysis_subgraph (e\<lparr>websocket_manager := sink\<rparr>) state w))
       = db (fst (browser_analysis_subgraph e state w))
   \<and> files (fst (browser_analysis_subgraph (e\<lparr>websocket_manager := sink\<rparr>) state w))
       = files (fst (browser_analysis_subgraph e state w))
   \<and> ws_sent (fst (browser_analysis_subgraph (e\<lparr>websocket_manager := sink\<rparr>) state w))
       = ws_sent (fst (browser_analysis_subgraph e state w))"
  by (cases "browser_initialize e"; cases "page_goto e")
     (simp_all add: browser_analysis_subgraph_def browser_analysis_try_def Let_def
        navigate_to_url_def)

lemma generate_hover_sink:
  "snd (generate_hover_features_node (e\<lparr>websocket_manager := sink\<rparr>) state w)
     = snd (generate_hover_features_node e state w)
   \<and> db (fst (generate_hover_features_node (e\<lparr>websocket_manager := sink\<rparr>) state w))
       = db (fst (generate_hover_features_node e state w))
   \<and> files (fst (generate_hover_features_node (e\<lparr>websocket_manager := sink\<rparr>) state w))
       = files (fst (generate_hover_features_node e state w))
   \<and> ws_sent (fst (generate_hover_features_node (e\<lparr>websocket_manager := sink\<rparr>) state w))
       = ws_sent (fst (generate_hover_features_node e state w))"
  by (cases "create_provider e";
      cases "generate_hover_features (llm_hover e) (url state) (or_empty (hover_elements state))")
     (simp_all add: generate_hover_features_node_def generate_hover_features_try_def Let_def
        save_feature_file_def)

lemma generate_popup_sink:
  "snd (generate_popup_features_node (e\<lparr>websocket_manager := sink\<rparr>) state w)
     = snd (generate_popup_features_node e state w)
   \<and> db (fst (generate_popup_features_node (e\<lparr>websocket_manager := sink\<rparr>) state w))
       = db (fst (generate_popup_features_node e state w))
   \<and> files (fst (generate_popup_features_node (e\<lparr>websocket_manager := sink\<rparr>) state w))
       = files (fst (generate_popup_features_node e state w))
   \<and> ws_sent (fst (generate_popup_features_node (e\<lparr>websocket_manager := sink\<rparr>) state w))
       = ws_sent (fst (generate_popup_features_node e state w))"
  by (cases "create_provider e";
      cases "generate_popup_features (llm_popup e) (url state) (or_empty (popup_elements state))")
     (simp_all add: generate_popup_features_node_def generate_popup_features_try_def Let_def
        save_feature_file_def)

lemma complete_task_sink:
  "snd (complete_task_node (e\<lparr>websocket_manager := sink\<rparr>) state w)
     = snd (complete_task_node e state w)
   \<and> db (fst (complete_task_node (e\<lparr>websocket_manager := sink\<rparr>) state w))
       = db (fst (complete_task_node e state w))
   \<and> files (fst (complete_task_node (e\<lparr>websocket_manager := sink\<rparr>) state w))
       = files (fst (complete_task_node e state w))
   \<and> ws_sent (fst (complete_task_node (e\<lparr>websocket_manager := sink\<rparr>) state w))
       = ws_sent (fst (complete_task_node e state w))"
  by (simp add: complete_task_node_def Let_def)

lemma handle_error_sink:
  "snd (handle_error_node (e\<lparr>websocket_manager := sink\<rparr>) state w)
     = snd (handle_error_node e state w)
   \<and> db (fst (handle_error_node (e\<lparr>websocket_manager := sink\<rparr>) state w))
       = db (fst (handle_error_node e state w))
   \<and> files (fst (handle_error_node (e\<lparr>websocket_manager := sink\<rparr>) state w))
       = files (fst (handle_error_node e state w))
   \<and> ws_sent (fst (handle_error_node (e\<lparr>websocket_manager := sink\<rparr>) state w))
       = ws_sent (fst (handle_error_node e state w))"
  by (cases "error_message state") (simp_all add: handle_error_node_def Let_def)

lemma run_node_sink:
  "snd (run_node (e\<lparr>websocket_manager := sink\<rparr>) n state w) = snd (run_node e n state w)
   \<and> db (fst (run_node (e\<lparr>websocket_manager := sink\<rparr>) n state w))
       = db (fst (run_node e n state w))
   \<and> files (fst (run_node (e\<lparr>websocket_manager := sink\<rparr>) n state w))
       = files (fst (run_node e n state w))
   \<and> ws_sent (fst (run_node (e\<lparr>websocket_manager := sink\<rparr>) n state w))
       = ws_sent (fst (run_node e n state w))"
  by (cases n)
     (simp_all add: run_node_def create_task_node_sink browser_analysis_sink generate_hover_sink
        generate_popup_sink complete_task_sink handle_error_sink)

text \<open>
  Claim C9. \<open>send_ws_update\<close> never raises and changes neither the store nor the files;
  when \<open>send_update\<close> of the registered manager raises, the failure is logged there and
  nothing is delivered. For every node of the graph, the update the node returns (or the
  exception it raises), the store, the files and the messages sent are the same whatever
  the sink does, be it absent, failing or delivering. Exceptions are those of class
  \<open>Exception\<close>.
\<close>

theorem progress_sink_failure_isolated:
  "snd (send_ws_update e update w) = Inr ()
   \<and> db (fst (send_ws_update e update w)) = db w
   \<and> files (fst (send_ws_update e update w)) = files w
   \<and> (websocket_manager e = Some send_update \<longrightarrow> send_update (length (ws_sent w)) = Inl err \<longrightarrow>
        debug_log (fst (send_ws_update e update w))
          = debug_log w @ [''WebSocket update failed: '' @ err]
        \<and> ws_delivered (fst (send_ws_update e update w)) = ws_delivered w)
   \<and> (\<forall>sink. snd (run_node (e\<lparr>websocket_manager := sink\<rparr>) n state w) = snd (run_node e n state w)
          \<and> db (fst (run_node (e\<lparr>websocket_manager := sink\<rparr>) n state w))
              = db (fst (run_node e n state w))
          \<and> files (fst (run_node (e\<lparr>websocket_manager := sink\<rparr>) n state w))
              = files (fst (run_node e n state w))
          \<and> ws_sent (fst (run_node (e\<lparr>websocket_manager := sink\<rparr>) n state w))
              = ws_sent (fst (run_node e n state w)))"
proof -
  have "websocket_manager e = Some send_update \<longrightarrow> send_update (length (ws_sent w)) = Inl err \<longrightarrow>
        debug_log (fst (send_ws_update e update w))
          = debug_log w @ [''WebSocket update failed: '' @ err]
        \<and> ws_delivered (fst (send_ws_update e update w)) = ws_delivered w"
    by (simp add: send_ws_update_def Let_def)
  then show ?thesis by (simp add: run_node_sink)
qed

theorem progress_sink_failure_isolated_witness:
  "websocket_manager (example_env\<lparr>websocket_manager := Some (\<lambda>n. Inl ''client disconnected'')\<rparr>)
     = Some (\<lambda>n. Inl ''client disconnected'')
   \<and> snd (send_ws_update
            (example_env\<lparr>websocket_manager := Some (\<lambda>n. Inl ''client disconnected'')\<rparr>)
            (status_message 1 10 ''Launching browser'') example_world) = Inr ()
   \<and> debug_log (fst (send_ws_update
            (example_env\<lparr>websocket_manager := Some (\<lambda>n. Inl ''client disconnected'')\<rparr>)
            (status_message 1 10 ''Launching browser'') example_world))
       = [''WebSocket update failed: client disconnected'']
   \<and> snd (run_node (example_env\<lparr>websocket_manager := Some (\<lambda>n. Inl ''client disconnected'')\<rparr>)
            BrowserAnalysis example_state example_world)
       = snd (run_node (example_env\<lparr>websocket_manager := Some (\<lambda>n. Inr ())\<rparr>)
               BrowserAnalysis example_state example_world)"
proof -
  let ?bad = "example_env\<lparr>websocket_manager := Some (\<lambda>n. Inl ''client disconnected'')\<rparr>"
  have d: "debug_log example_world = []" by (simp add: example_world_def)
  from progress_sink_failure_isolated [of ?bad "status_message 1 10 ''Launching browser''" example_world
      "\<lambda>n. Inl ''client disconnected''" "''client disconnected''" BrowserAnalysis example_state]
  have 1: "snd (send_ws_update ?bad (status_message 1 10 ''Launching browser'') example_world)
             = Inr ()"
    and 2: "debug_log (fst (send_ws_update ?bad (status_message 1 10 ''Launching browser'')
                              example_world))
             = [''WebSocket update failed: client disconnected'']"
    and 3: "snd (run_node (?bad\<lparr>websocket_manager := Some (\<lambda>n. Inr ())\<rparr>)
                   BrowserAnalysis example_state example_world)
             = snd (run_node ?bad BrowserAnalysis example_state example_world)"
    by (simp_all add: d)
  from 1 2 3 show ?thesis by simp
qed

end
